theory Spec2Isabelle
  imports Main "HOL-Library.Word" "HOL-Library.AList"
begin

section \<open>Data model of span\_context.go\<close>

text \<open>
  Go's \<open>int64\<close> is a 64-bit word. Go strings are byte strings: \<open>string\<close> (a list of
  8-bit characters). A Go \<open>map[string]string\<close> is a reference to a mutable container:
  a span context holds the address of its baggage map (\<open>None\<close> is the nil map) and the
  containers live in the heap of the \<open>world\<close> below, so that sharing between two
  contexts is visible. A container is an association list with distinct keys; its order
  stands for one of the iteration orders Go may choose.
\<close>

type_synonym int64 = "64 word"

record EUMCorrelationData =
  Type :: string
  ID :: string

text \<open>\<open>SpanReference\<close>: its fields \<open>TraceID\<close> and \<open>SpanID\<close> carry a prefix here, because
  the fields of \<open>SpanContext\<close> have the same names.\<close>

record SpanReference =
  RefTraceID :: string
  RefSpanID :: string

text \<open>
  The types of package \<open>w3ctrace\<close>, as far as span\_context.go and the propagation code
  use them: \<open>Context\<close> with its two raw header strings, \<open>Parent\<close> with the four fields the
  struct literal in \<open>newW3CTraceContext\<close> sets, \<open>Flags\<close> with \<open>Sampled\<close>. \<open>State\<close> is only
  used through its methods; it is the list of \<open>vendor=value\<close> entries.
\<close>

record W3C_Flags =
  W3C_Sampled :: bool

record W3C_Parent =
  W3C_Version :: nat
  W3C_TraceID :: string
  W3C_ParentID :: string
  W3C_Flags :: W3C_Flags

record W3C_Context =
  RawParent :: string
  RawState :: string

type_synonym W3C_State = "string list"

text \<open>\<open>http.Header\<close> is \<open>map[string][]string\<close>.\<close>

type_synonym Header = "(string \<times> string list) list"

record SpanContext =
  TraceIDHi :: int64
  TraceID :: int64
  SpanID :: int64
  ParentID :: int64
  Links :: "SpanReference list"
  Sampled :: bool
  Suppressed :: bool
  Baggage :: "nat option"
  W3CContext :: W3C_Context
  ForeignTrace :: bool
  Correlation :: EUMCorrelationData
  ForeignParent :: "W3C_Context option"

text \<open>
  The last field is the one the propagation code reads and writes as
  \<open>sc.ForeignParent\<close>, an interface value it type-asserts to \<open>w3ctrace.Context\<close>:
  \<open>Some c\<close> when it holds such a context, \<open>None\<close> when it is nil or holds anything else.
  No struct literal of span\_context.go sets it.
\<close>

definition zeroContext :: W3C_Context where
  "zeroContext = \<lparr>RawParent = [], RawState = []\<rparr>"

definition zeroSpanContext :: SpanContext where
  "zeroSpanContext =
     \<lparr>TraceIDHi = 0, TraceID = 0, SpanID = 0, ParentID = 0, Links = [],
      Sampled = False, Suppressed = False, Baggage = None, W3CContext = zeroContext,
      ForeignTrace = False, Correlation = \<lparr>Type = [], ID = []\<rparr>, ForeignParent = None\<rparr>"

subsection \<open>What the code calls and src/ does not hold\<close>

text \<open>
  The identifier codec (\<open>FormatID\<close>, \<open>FormatLongID\<close>, \<open>ParseID\<close>, \<open>ParseLongID\<close>) and
  package \<open>w3ctrace\<close> are called by the code below; they belong to the repository, in
  files that are not under src/. They are parameters of every function that uses them: a record of
  operations. A parser returns \<open>None\<close> where the Go function returns a non-nil error.
  \<open>ParentString\<close> and \<open>StateString\<close> are the \<open>String()\<close> methods of \<open>Parent\<close> and \<open>State\<close>;
  \<open>Extract\<close> returns \<open>None\<close> for a non-nil error.

  The last three are Go's own reading of a string as UTF-8, which \<open>strings.ToLower\<close> and
  the conversion \<open>[]rune(k)\<close> rest on. They are asked only about a string whose first byte
  is 0x80 or above: \<open>runeWidth\<close> is the number of bytes its first rune takes (as
  \<open>utf8.DecodeRuneInString\<close> reports it: 1 for a byte that starts no valid encoding),
  \<open>runeString\<close> is that rune as \<open>string(r)\<close> writes it, and \<open>runeLower\<close> is the rune
  \<open>unicode.ToLower\<close> maps it to, written the same way.
\<close>

record lib =
  FormatID :: "int64 \<Rightarrow> string"
  FormatLongID :: "int64 \<Rightarrow> int64 \<Rightarrow> string"
  ParseID :: "string \<Rightarrow> int64 option"
  ParseLongID :: "string \<Rightarrow> (int64 \<times> int64) option"
  Version_Max :: nat
  VendorInstana :: string
  New :: "W3C_Parent \<Rightarrow> W3C_Context"
  IsZero :: "W3C_Context \<Rightarrow> bool"
  Parent :: "W3C_Context \<Rightarrow> W3C_Parent"
  ParentString :: "W3C_Parent \<Rightarrow> string"
  State :: "W3C_Context \<Rightarrow> W3C_State"
  Fetch :: "W3C_State \<Rightarrow> string \<Rightarrow> string option"
  Add :: "W3C_State \<Rightarrow> string \<Rightarrow> string \<Rightarrow> W3C_State"
  StateString :: "W3C_State \<Rightarrow> string"
  Inject :: "W3C_Context \<Rightarrow> Header \<Rightarrow> Header"
  Extract :: "Header \<Rightarrow> W3C_Context option"
  runeWidth :: "string \<Rightarrow> nat"
  runeString :: "string \<Rightarrow> string"
  runeLower :: "string \<Rightarrow> string"

text \<open>The process-wide \<open>sensor.options\<close>, passed explicitly.\<close>

record Options =
  disableW3CTraceCorrelation :: bool

text \<open>
  The state the functions thread: the generator behind \<open>randomID()\<close> (the sequence of
  identifiers it will return and how many it has returned), and the heap of baggage
  maps. An address is an index into the heap; \<open>make\<close> allocates the next one.
\<close>

record world =
  rnd :: "nat \<Rightarrow> int64"
  tick :: nat
  heap :: "(string \<times> string) list list"

definition randomID :: "world \<Rightarrow> int64 \<times> world" where
  "randomID w = (rnd w (tick w), w\<lparr>tick := Suc (tick w)\<rparr>)"

definition make_map :: "world \<Rightarrow> nat \<times> world" where
  "make_map w = (length (heap w), w\<lparr>heap := heap w @ [[]]\<rparr>)"

definition map_set :: "nat \<Rightarrow> string \<Rightarrow> string \<Rightarrow> world \<Rightarrow> world" where
  "map_set a k v w = w\<lparr>heap := (heap w)[a := AList.update k v (heap w ! a)]\<rparr>"

section \<open>span\_context.go\<close>

definition newW3CTraceContext :: "lib \<Rightarrow> SpanContext \<Rightarrow> W3C_Context" where
  "newW3CTraceContext L c =
     New L \<lparr>W3C_Version = Version_Max L,
            W3C_TraceID = FormatLongID L (TraceIDHi c) (TraceID c),
            W3C_ParentID = FormatID L (SpanID c),
            W3C_Flags = \<lparr>W3C_Sampled = \<not> Suppressed c\<rparr>\<rparr>"

definition NewRootSpanContext :: "lib \<Rightarrow> world \<Rightarrow> SpanContext \<times> world" where
  "NewRootSpanContext L w =
     (let (spanID, w1) = randomID w;
          c = zeroSpanContext\<lparr>TraceID := spanID, SpanID := spanID\<rparr>
      in (c\<lparr>W3CContext := newW3CTraceContext L c\<rparr>, w1))"

text \<open>\<open>strings.IndexByte\<close>: the index of the first occurrence, \<open>-1\<close> when there is none.\<close>

fun IndexByte :: "string \<Rightarrow> char \<Rightarrow> int" where
  "IndexByte [] c = -1"
| "IndexByte (x # xs) c =
     (if x = c then 0 else (let i = IndexByte xs c in if i < 0 then -1 else i + 1))"

definition parseW3CInstanaState :: "string \<Rightarrow> SpanReference option" where
  "parseW3CInstanaState vendorData =
     (let ind = IndexByte vendorData (CHR '';'')
      in if ind < 0 then None
         else Some \<lparr>RefTraceID = take (nat ind) vendorData,
                    RefSpanID = drop (nat ind + 1) vendorData\<rparr>)"

definition restoreFromW3CTraceState :: "lib \<Rightarrow> W3C_Context \<Rightarrow> SpanContext" where
  "restoreFromW3CTraceState L trCtx =
     (if IsZero L trCtx then zeroSpanContext
      else
        let c = zeroSpanContext\<lparr>W3CContext := trCtx\<rparr> in
        case Fetch L (State L trCtx) (VendorInstana L) of
          None \<Rightarrow> c
        | Some state \<Rightarrow>
            (case parseW3CInstanaState state of
               None \<Rightarrow> c
             | Some ref \<Rightarrow>
                 (case ParseLongID L (RefTraceID ref) of
                    None \<Rightarrow> c
                  | Some (traceIDHi, traceIDLo) \<Rightarrow>
                      (case ParseID L (RefSpanID ref) of
                         None \<Rightarrow> c
                       | Some parentID \<Rightarrow>
                           c\<lparr>TraceIDHi := traceIDHi, TraceID := traceIDLo,
                             SpanID := parentID\<rparr>))))"

definition restoreFromW3CTraceContext :: "lib \<Rightarrow> Options \<Rightarrow> W3C_Context \<Rightarrow> SpanContext" where
  "restoreFromW3CTraceContext L opts trCtx =
     (if IsZero L trCtx then zeroSpanContext
      else if disableW3CTraceCorrelation opts then restoreFromW3CTraceState L trCtx
      else
        let parent = Parent L trCtx in
        case ParseLongID L (W3C_TraceID parent) of
          None \<Rightarrow> zeroSpanContext
        | Some (traceIDHi, traceIDLo) \<Rightarrow>
            (case ParseID L (W3C_ParentID parent) of
               None \<Rightarrow> zeroSpanContext
             | Some parentID \<Rightarrow>
                 zeroSpanContext\<lparr>TraceIDHi := traceIDHi, TraceID := traceIDLo,
                   SpanID := parentID,
                   Suppressed := \<not> W3C_Sampled (W3C_Flags parent),
                   W3CContext := trCtx\<rparr>))"

text \<open>The loop of \<open>Clone\<close>: \<open>for k, v := range c.Baggage { res.Baggage[k] = v }\<close>, over the
  entries of the source container, writing into the container at address \<open>b\<close>.\<close>

fun copy_entries :: "nat \<Rightarrow> (string \<times> string) list \<Rightarrow> world \<Rightarrow> world" where
  "copy_entries b [] w = w"
| "copy_entries b ((k, v) # kvs) w = copy_entries b kvs (map_set b k v w)"

definition Clone :: "SpanContext \<Rightarrow> world \<Rightarrow> SpanContext \<times> world" where
  "Clone c w =
     (let res = zeroSpanContext\<lparr>TraceIDHi := TraceIDHi c, TraceID := TraceID c,
                  SpanID := SpanID c, ParentID := ParentID c, Sampled := Sampled c,
                  Suppressed := Suppressed c, W3CContext := W3CContext c\<rparr>
      in case Baggage c of
           None \<Rightarrow> (res, w)
         | Some a \<Rightarrow>
             (let (b, w1) = make_map w
              in (res\<lparr>Baggage := Some b\<rparr>, copy_entries b (heap w ! a) w1)))"

definition WithBaggageItem :: "SpanContext \<Rightarrow> string \<Rightarrow> string \<Rightarrow> world \<Rightarrow> SpanContext \<times> world" where
  "WithBaggageItem c key val w =
     (let (res, w1) = Clone c w
      in case Baggage res of
           None \<Rightarrow> (let (b, w2) = make_map w1 in (res\<lparr>Baggage := Some b\<rparr>, map_set b key val w2))
         | Some b \<Rightarrow> (res, map_set b key val w1))"

definition NewSpanContext :: "lib \<Rightarrow> Options \<Rightarrow> SpanContext \<Rightarrow> world \<Rightarrow> SpanContext \<times> world" where
  "NewSpanContext L opts parent0 w =
     (let (parent, foreignTrace) =
            (if TraceIDHi parent0 = 0 \<and> TraceID parent0 = 0 \<and> SpanID parent0 = 0
             then (restoreFromW3CTraceContext L opts (W3CContext parent0),
                   True \<and> \<not> disableW3CTraceCorrelation opts)
             else (parent0, False))
      in if TraceIDHi parent = 0 \<and> TraceID parent = 0 \<and> SpanID parent = 0
         then
           (let (c, w1) = NewRootSpanContext L w
            in (if \<not> IsZero L (W3CContext parent)
                then c\<lparr>W3CContext := W3CContext parent\<rparr> else c, w1))
         else
           (let (c0, w1) = Clone parent w;
                (newID, w2) = randomID w1;
                c = c0\<lparr>SpanID := newID, ParentID := SpanID parent,
                       ForeignTrace := foreignTrace\<rparr>
            in if IsZero L (W3CContext c)
               then (c\<lparr>W3CContext := newW3CTraceContext L c\<rparr>, w2)
               else
                 (let w3cParent = (Parent L (W3CContext c))\<lparr>W3C_ParentID := FormatID L (SpanID c)\<rparr>;
                      c1 = c\<lparr>W3CContext := (W3CContext c)\<lparr>RawParent := ParentString L w3cParent\<rparr>\<rparr>
                  in if foreignTrace
                     then
                       (case Fetch L (State L (W3CContext c1)) (VendorInstana L) of
                          None \<Rightarrow> (c1, w2)
                        | Some ancestor \<Rightarrow>
                            (case parseW3CInstanaState ancestor of
                               None \<Rightarrow> (c1, w2)
                             | Some ref \<Rightarrow> (c1\<lparr>Links := Links c1 @ [ref]\<rparr>, w2)))
                     else (c1, w2))))"

subsection \<open>The two paths of NewSpanContext\<close>

text \<open>The two halves of \<open>NewSpanContext\<close>, named for the proofs: what it returns for a
  (possibly restored) parent without native identifiers, and what it derives from a
  parent that has one.\<close>

definition rootPath :: "lib \<Rightarrow> SpanContext \<Rightarrow> world \<Rightarrow> SpanContext \<times> world" where
  "rootPath L parent w =
     (let (c, w1) = NewRootSpanContext L w
      in (if \<not> IsZero L (W3CContext parent)
          then c\<lparr>W3CContext := W3CContext parent\<rparr> else c, w1))"

definition clonePath :: "lib \<Rightarrow> bool \<Rightarrow> SpanContext \<Rightarrow> world \<Rightarrow> SpanContext \<times> world" where
  "clonePath L foreignTrace parent w =
     (let (c0, w1) = Clone parent w;
          (newID, w2) = randomID w1;
          c = c0\<lparr>SpanID := newID, ParentID := SpanID parent,
                 ForeignTrace := foreignTrace\<rparr>
      in if IsZero L (W3CContext c)
         then (c\<lparr>W3CContext := newW3CTraceContext L c\<rparr>, w2)
         else
           (let w3cParent = (Parent L (W3CContext c))\<lparr>W3C_ParentID := FormatID L (SpanID c)\<rparr>;
                c1 = c\<lparr>W3CContext := (W3CContext c)\<lparr>RawParent := ParentString L w3cParent\<rparr>\<rparr>
            in if foreignTrace
               then
                 (case Fetch L (State L (W3CContext c1)) (VendorInstana L) of
                    None \<Rightarrow> (c1, w2)
                  | Some ancestor \<Rightarrow>
                      (case parseW3CInstanaState ancestor of
                         None \<Rightarrow> (c1, w2)
                       | Some ref \<Rightarrow> (c1\<lparr>Links := Links c1 @ [ref]\<rparr>, w2)))
               else (c1, w2)))"

definition noNativeIDs :: "SpanContext \<Rightarrow> bool" where
  "noNativeIDs c = (TraceIDHi c = 0 \<and> TraceID c = 0 \<and> SpanID c = 0)"

section \<open>The propagation code (x-instana-* headers)\<close>

definition FieldT :: string where "FieldT = ''x-instana-t''"
definition FieldS :: string where "FieldS = ''x-instana-s''"
definition FieldL :: string where "FieldL = ''x-instana-l''"
definition FieldB :: string where "FieldB = ''x-instana-b-''"

text \<open>
  \<open>strings.ToLower\<close> lowers a string rune by rune. A byte below 0x80 is a rune of its own,
  and its lower case is the ASCII one (the table below); this is also all that Go's fast
  path for ASCII strings does. From a byte that is 0x80 or above, the rune, its width and
  its lower case are Go's (\<open>runeWidth\<close>, \<open>runeLower\<close>): a letter outside ASCII may well
  have an ASCII lower case, as U+0130 has \<open>i\<close>. \<open>digit7\<close> is the top bit of the byte.
\<close>

definition ToLowerChar :: "char \<Rightarrow> char" where
  "ToLowerChar c =
     (case map_of (zip ''ABCDEFGHIJKLMNOPQRSTUVWXYZ'' ''abcdefghijklmnopqrstuvwxyz'') c of
        Some l \<Rightarrow> l | None \<Rightarrow> c)"

definition ToUpperChar :: "char \<Rightarrow> char" where
  "ToUpperChar c =
     (case map_of (zip ''abcdefghijklmnopqrstuvwxyz'' ''ABCDEFGHIJKLMNOPQRSTUVWXYZ'') c of
        Some u \<Rightarrow> u | None \<Rightarrow> c)"

function ToLower :: "lib \<Rightarrow> string \<Rightarrow> string" where
  "ToLower L [] = []"
| "ToLower L (c # cs) =
     (if \<not> digit7 c then ToLowerChar c # ToLower L cs
      else runeLower L (c # cs) @ ToLower L (drop (runeWidth L (c # cs) - 1) cs))"
  by pat_completeness auto
termination
  by (relation "measure (\<lambda>(L, s). length s)") auto

text \<open>\<open>string([]rune(k)[:n])\<close>: the first \<open>n\<close> runes of the string, written back as a string.
  The slice expression panics when the string has fewer than \<open>n\<close> runes: \<open>None\<close>.\<close>

fun runePrefix :: "lib \<Rightarrow> nat \<Rightarrow> string \<Rightarrow> string option" where
  "runePrefix L 0 s = Some []"
| "runePrefix L (Suc n) [] = None"
| "runePrefix L (Suc n) (c # cs) =
     (if \<not> digit7 c then map_option ((#) c) (runePrefix L n cs)
      else map_option ((@) (runeString L (c # cs)))
             (runePrefix L n (drop (runeWidth L (c # cs) - 1) cs)))"

definition HasPrefix :: "string \<Rightarrow> string \<Rightarrow> bool" where
  "HasPrefix s p = (take (length p) s = p)"

definition parseLevel :: "string \<Rightarrow> bool" where
  "parseLevel s = (s = ''0'')"

definition formatLevel :: "SpanContext \<Rightarrow> string" where
  "formatLevel sc = (if Suppressed sc then ''0'' else ''1'')"

text \<open>The errors the two functions return. \<open>Panic\<close> is not one of them: it stands for a
  run-time panic (a slice expression out of range), which ends the call.\<close>

datatype error = ErrInvalidCarrier | ErrSpanContextNotFound | ErrSpanContextCorrupted | Panic

subsection \<open>Carriers\<close>

text \<open>
  The carriers of the opentracing library the code is written against.
  \<open>TextMapCarrier\<close> is a \<open>map[string]string\<close> and \<open>HTTPHeadersCarrier\<close> an \<open>http.Header\<close>; both
  are readers and writers. \<open>ReaderOnly\<close> stands for a carrier that implements
  \<open>TextMapReader\<close> alone (it presents the given pairs), \<open>OtherCarrier\<close> for a value that
  implements neither interface. The maps are association lists: the order of the list is
  the order in which \<open>ForeachKey\<close> presents the entries, which Go leaves open, so a
  statement about every list is a statement about every order.
\<close>

datatype carrier =
    TextMapCarrier "(string \<times> string) list"
  | HTTPHeadersCarrier Header
  | ReaderOnly "(string \<times> string) list"
  | OtherCarrier

text \<open>The type assertion to \<open>ot.TextMapReader\<close>, with the pairs \<open>ForeachKey\<close> presents: a
  text map presents each entry, a header map each value of each key.\<close>

fun asTextMapReader :: "carrier \<Rightarrow> (string \<times> string) list option" where
  "asTextMapReader (TextMapCarrier m) = Some m"
| "asTextMapReader (HTTPHeadersCarrier h) = Some (concat (map (\<lambda>(k, vals). map (Pair k) vals) h))"
| "asTextMapReader (ReaderOnly m) = Some m"
| "asTextMapReader OtherCarrier = None"

text \<open>\<open>ForeachKey\<close>: the handler is called on every pair in turn, with the variables its
  closure captured as an explicit state; the first error ends the loop and is returned.\<close>

fun ForeachKey ::
  "(string \<times> string) list \<Rightarrow> (string \<Rightarrow> string \<Rightarrow> 's \<Rightarrow> error option \<times> 's) \<Rightarrow> 's \<Rightarrow> error option \<times> 's"
where
  "ForeachKey [] handler s = (None, s)"
| "ForeachKey ((k, v) # kvs) handler s =
     (case handler k v s of
        (Some e, s') \<Rightarrow> (Some e, s')
      | (None, s') \<Rightarrow> ForeachKey kvs handler s')"

text \<open>The type assertion to \<open>ot.TextMapWriter\<close>.\<close>

fun isTextMapWriter :: "carrier \<Rightarrow> bool" where
  "isTextMapWriter (TextMapCarrier m) = True"
| "isTextMapWriter (HTTPHeadersCarrier h) = True"
| "isTextMapWriter (ReaderOnly m) = False"
| "isTextMapWriter OtherCarrier = False"

text \<open>
  \<open>textproto.CanonicalMIMEHeaderKey\<close>, which \<open>(http.Header).Set\<close> and \<open>Get\<close> apply to the key
  (the comment in \<open>injectTraceContext\<close> is about it): the first letter and every letter
  after a hyphen in upper case, the others in lower case; a key with a byte that is not
  a token character is left as it is.
\<close>

definition validHeaderFieldByte :: "char \<Rightarrow> bool" where
  "validHeaderFieldByte c =
     (c \<in> set (''abcdefghijklmnopqrstuvwxyzABCDEFGHIJKLMNOPQRSTUVWXYZ0123456789''
                @ [CHR 0x21, CHR 0x23, CHR 0x24, CHR 0x25, CHR 0x26, CHR 0x27, CHR 0x2A,
                   CHR 0x2B, CHR 0x2D, CHR 0x2E, CHR 0x5E, CHR 0x5F, CHR 0x60, CHR 0x7C,
                   CHR 0x7E]))"

fun canonical :: "bool \<Rightarrow> string \<Rightarrow> string" where
  "canonical upper [] = []"
| "canonical upper (c # cs) =
     (if upper then ToUpperChar c else ToLowerChar c) # canonical (c = CHR ''-'') cs"

definition CanonicalMIMEHeaderKey :: "string \<Rightarrow> string" where
  "CanonicalMIMEHeaderKey s = (if list_all validHeaderFieldByte s then canonical True s else s)"

definition Header_Set :: "string \<Rightarrow> string \<Rightarrow> Header \<Rightarrow> Header" where
  "Header_Set key val h = AList.update (CanonicalMIMEHeaderKey key) [val] h"

definition Header_Get :: "Header \<Rightarrow> string \<Rightarrow> string" where
  "Header_Get h key =
     (case map_of h (CanonicalMIMEHeaderKey key) of
        None \<Rightarrow> [] | Some [] \<Rightarrow> [] | Some (v # vs) \<Rightarrow> v)"

text \<open>\<open>carrier.Set\<close>: a map store for a text map, \<open>(http.Header).Set\<close> for a header map.\<close>

fun carrier_Set :: "string \<Rightarrow> string \<Rightarrow> carrier \<Rightarrow> carrier" where
  "carrier_Set key val (TextMapCarrier m) = TextMapCarrier (AList.update key val m)"
| "carrier_Set key val (HTTPHeadersCarrier h) = HTTPHeadersCarrier (Header_Set key val h)"
| "carrier_Set key val c = c"

subsection \<open>Injection\<close>

definition addW3CTraceContext :: "lib \<Rightarrow> Header \<Rightarrow> SpanContext \<Rightarrow> Header" where
  "addW3CTraceContext L h sc =
     (let traceID = FormatID L (TraceID sc); spanID = FormatID L (SpanID sc);
          trCtx = (case ForeignParent sc of
                     Some t \<Rightarrow> t
                   | None \<Rightarrow>
                       New L \<lparr>W3C_Version = Version_Max L, W3C_TraceID = traceID,
                              W3C_ParentID = spanID,
                              W3C_Flags = \<lparr>W3C_Sampled = \<not> Suppressed sc\<rparr>\<rparr>);
          p = (Parent L trCtx)\<lparr>W3C_ParentID := spanID\<rparr>;
          trCtx1 = trCtx\<lparr>RawParent := ParentString L p\<rparr>;
          trCtx2 = trCtx1\<lparr>RawState :=
                     StateString L (Add L (State L trCtx1) (VendorInstana L)
                                      (traceID @ '';'' @ spanID))\<rparr>
      in Inject L trCtx2 h)"

text \<open>The handler of the scan for keys that exist already. Its state is the four
  variables \<open>exstfieldT\<close>, \<open>exstfieldS\<close>, \<open>exstfieldL\<close>, \<open>exstfieldB\<close>; on a key whose lower
  case starts with the baggage prefix, \<open>exstfieldB\<close> becomes the first \<open>len(FieldB)\<close> runes of
  the key. The handler returns nil in every case; its only other outcome is the panic of
  that slice expression.\<close>

definition inject_handler ::
  "lib \<Rightarrow> string \<Rightarrow> string \<Rightarrow> string \<times> string \<times> string \<times> string
     \<Rightarrow> error option \<times> string \<times> string \<times> string \<times> string" where
  "inject_handler L k v st =
     (case st of (exstfieldT, exstfieldS, exstfieldL, exstfieldB) \<Rightarrow>
        if ToLower L k = FieldT then (None, k, exstfieldS, exstfieldL, exstfieldB)
        else if ToLower L k = FieldS then (None, exstfieldT, k, exstfieldL, exstfieldB)
        else if ToLower L k = FieldL then (None, exstfieldT, exstfieldS, k, exstfieldB)
        else if HasPrefix (ToLower L k) FieldB
             then (case runePrefix L (length FieldB) k of
                     None \<Rightarrow> (Some Panic, st)
                   | Some prefix \<Rightarrow> (None, exstfieldT, exstfieldS, exstfieldL, prefix))
        else (None, st))"

text \<open>The entries \<open>range sc.Baggage\<close> runs over: none for the nil map.\<close>

definition baggage_entries :: "SpanContext \<Rightarrow> world \<Rightarrow> (string \<times> string) list" where
  "baggage_entries sc w = (case Baggage sc of None \<Rightarrow> [] | Some a \<Rightarrow> heap w ! a)"

definition injectTraceContext ::
  "lib \<Rightarrow> SpanContext \<Rightarrow> carrier \<Rightarrow> world \<Rightarrow> error option \<times> carrier" where
  "injectTraceContext L sc opaqueCarrier w =
     (case asTextMapReader opaqueCarrier of
        None \<Rightarrow> (Some ErrInvalidCarrier, opaqueCarrier)
      | Some kvs \<Rightarrow>
          (case ForeachKey kvs (inject_handler L) (FieldT, FieldS, FieldL, FieldB) of
             (Some panic, st) \<Rightarrow> (Some panic, opaqueCarrier)
           | (None, exstfieldT, exstfieldS, exstfieldL, exstfieldB) \<Rightarrow>
               if \<not> isTextMapWriter opaqueCarrier then (Some ErrInvalidCarrier, opaqueCarrier)
               else
                 let c0 = (case opaqueCarrier of
                             HTTPHeadersCarrier h \<Rightarrow>
                               HTTPHeadersCarrier
                                 (addW3CTraceContext L
                                    (filter (\<lambda>(key, vals). \<not> HasPrefix (ToLower L key) FieldB)
                                       (AList.delete exstfieldL
                                          (AList.delete exstfieldS
                                             (AList.delete exstfieldT h)))) sc)
                           | _ \<Rightarrow> opaqueCarrier);
                     c1 = carrier_Set exstfieldT (FormatID L (TraceID sc)) c0;
                     c2 = carrier_Set exstfieldS (FormatID L (SpanID sc)) c1;
                     c3 = carrier_Set exstfieldL (formatLevel sc) c2
                 in (None, fold (\<lambda>(k, v). carrier_Set (exstfieldB @ k) v)
                             (baggage_entries sc w) c3)))"

subsection \<open>Extraction\<close>

text \<open>The handler of the extraction. Its state is \<open>fieldCount\<close>, \<open>spanContext\<close> and the
  heap; \<open>b\<close> is the address of the baggage map made at the start of
  \<open>extractTraceContext\<close>, which the field \<open>spanContext.Baggage\<close> holds throughout. The
  baggage key is the byte slice \<open>k[len(FieldB):]\<close>, which panics on a key shorter than
  the prefix.\<close>

definition extract_handler ::
  "lib \<Rightarrow> nat \<Rightarrow> string \<Rightarrow> string \<Rightarrow> int \<times> SpanContext \<times> world
     \<Rightarrow> error option \<times> int \<times> SpanContext \<times> world" where
  "extract_handler L b k v st =
     (case st of (fieldCount, spanContext, w) \<Rightarrow>
        if ToLower L k = FieldT then
          (case ParseID L v of
             None \<Rightarrow> (Some ErrSpanContextCorrupted, fieldCount + 1, spanContext, w)
           | Some traceID \<Rightarrow> (None, fieldCount + 1, spanContext\<lparr>TraceID := traceID\<rparr>, w))
        else if ToLower L k = FieldS then
          (case ParseID L v of
             None \<Rightarrow> (Some ErrSpanContextCorrupted, fieldCount + 1, spanContext, w)
           | Some spanID \<Rightarrow> (None, fieldCount + 1, spanContext\<lparr>SpanID := spanID\<rparr>, w))
        else if ToLower L k = FieldL then
          (None, fieldCount, spanContext\<lparr>Suppressed := parseLevel v\<rparr>, w)
        else if HasPrefix (ToLower L k) FieldB then
          (if length k < length FieldB then (Some Panic, st)
           else (None, fieldCount, spanContext, map_set b (drop (length FieldB) k) v w))
        else (None, st))"

definition extractTraceContext ::
  "lib \<Rightarrow> carrier \<Rightarrow> world \<Rightarrow> (SpanContext \<times> error option) \<times> world" where
  "extractTraceContext L opaqueCarrier w =
     (let (b, w1) = make_map w;
          spanContext = zeroSpanContext\<lparr>Baggage := Some b\<rparr>
      in case asTextMapReader opaqueCarrier of
           None \<Rightarrow> ((spanContext, Some ErrInvalidCarrier), w1)
         | Some kvs \<Rightarrow>
             (case ForeachKey kvs (extract_handler L b) (0, spanContext, w1) of
                (Some err, fieldCount, spanContext1, w2) \<Rightarrow> ((spanContext1, Some err), w2)
              | (None, fieldCount, spanContext1, w2) \<Rightarrow>
                  if fieldCount = 0 then ((spanContext1, Some ErrSpanContextNotFound), w2)
                  else if fieldCount < 2 then ((spanContext1, Some ErrSpanContextCorrupted), w2)
                  else
                    (case opaqueCarrier of
                       HTTPHeadersCarrier h \<Rightarrow>
                         (case Extract L h of
                            Some trCtx \<Rightarrow> ((spanContext1\<lparr>ForeignParent := Some trCtx\<rparr>, None), w2)
                          | None \<Rightarrow> ((spanContext1, None), w2))
                     | _ \<Rightarrow> ((spanContext1, None), w2))))"

subsection \<open>Predicates on keys and carriers\<close>

text \<open>The keys \<open>fieldCount\<close> counts: the trace-id and the span-id field, in any case.\<close>

definition isIDField :: "lib \<Rightarrow> string \<Rightarrow> bool" where
  "isIDField L k = (ToLower L k = FieldT \<or> ToLower L k = FieldS)"

text \<open>A key on which the slice \<open>k[len(FieldB):]\<close> of the extraction does not panic.\<close>

definition sliceable :: "lib \<Rightarrow> string \<Rightarrow> bool" where
  "sliceable L k = (HasPrefix (ToLower L k) FieldB \<longrightarrow> length FieldB \<le> length k)"

text \<open>A key that is none of the protocol's: in lower case it is not the trace-id, span-id
  or level field and does not start with the baggage prefix.\<close>

definition cleanKey :: "lib \<Rightarrow> string \<Rightarrow> bool" where
  "cleanKey L k = (ToLower L k \<noteq> FieldT \<and> ToLower L k \<noteq> FieldS \<and> ToLower L k \<noteq> FieldL
                 \<and> \<not> HasPrefix (ToLower L k) FieldB)"

text \<open>The header map of a header-map carrier.\<close>

definition headersOf :: "carrier \<Rightarrow> Header" where
  "headersOf c = (case c of HTTPHeadersCarrier h \<Rightarrow> h | _ \<Rightarrow> [])"

text \<open>The keys a carrier presents to \<open>ForeachKey\<close>.\<close>

definition presentedKeys :: "carrier \<Rightarrow> string list" where
  "presentedKeys c = (case asTextMapReader c of None \<Rightarrow> [] | Some kvs \<Rightarrow> map fst kvs)"

text \<open>Among the keys, the field \<open>F\<close> has at most one spelling.\<close>

definition oneSpelling :: "lib \<Rightarrow> string \<Rightarrow> string list \<Rightarrow> bool" where
  "oneSpelling L F ks =
     (\<forall>k \<in> set ks. \<forall>k' \<in> set ks. ToLower L k = F \<and> ToLower L k' = F \<longrightarrow> k = k')"

text \<open>No key starts, in lower case, with the baggage prefix; and: every key that does
  has the prefix in ASCII, that is, its first \<open>len(FieldB)\<close> bytes are below 0x80.\<close>

definition noBaggageKey :: "lib \<Rightarrow> string list \<Rightarrow> bool" where
  "noBaggageKey L ks = (\<forall>k \<in> set ks. \<not> HasPrefix (ToLower L k) FieldB)"

definition asciiBaggagePrefix :: "lib \<Rightarrow> string list \<Rightarrow> bool" where
  "asciiBaggagePrefix L ks =
     (\<forall>k \<in> set ks. HasPrefix (ToLower L k) FieldB \<longrightarrow>
        (\<forall>c \<in> set (take (length FieldB) k). \<not> digit7 c))"

text \<open>What the round trip through a header map needs of \<open>w3ctrace.Inject\<close>: it leaves the
  headers of this protocol as they are (and a map with each key once stays one).\<close>

definition keepsInstanaHeaders :: "lib \<Rightarrow> bool" where
  "keepsInstanaHeaders L =
     (\<forall>trCtx h. distinct (map fst h) \<longrightarrow>
        distinct (map fst (Inject L trCtx h)) \<and>
        (\<forall>k. \<not> cleanKey L k \<longrightarrow> map_of (Inject L trCtx h) k = map_of h k))"

text \<open>Two carriers of the same kind with the same entries. Go presents the entries of a
  map in an order that is not fixed, so what holds of one loop over a map has to hold
  of every list with the same entries.\<close>

fun sameEntries :: "carrier \<Rightarrow> carrier \<Rightarrow> bool" where
  "sameEntries (TextMapCarrier m') (TextMapCarrier m) = (set m' = set m)"
| "sameEntries (HTTPHeadersCarrier h') (HTTPHeadersCarrier h) = (set h' = set h)"
| "sameEntries c' c = False"

text \<open>The result of an extraction gives back the context \<open>sc\<close>: no error, the same trace
  id, span id and suppression flag, and a baggage map with exactly the entries of the
  baggage of \<open>sc\<close>.\<close>

definition roundTrips :: "SpanContext \<Rightarrow> world \<Rightarrow> (SpanContext \<times> error option) \<times> world \<Rightarrow> bool" where
  "roundTrips sc w r =
     (case r of ((sc', err), w') \<Rightarrow>
        err = None \<and> TraceID sc' = TraceID sc \<and> SpanID sc' = SpanID sc \<and>
        Suppressed sc' = Suppressed sc \<and>
        set (baggage_entries sc' w') = set (baggage_entries sc w))"

section \<open>A library to run the code with\<close>

text \<open>
  One instance of the operations the code takes as parameters, written from the
  specification's description of them (sections 4.1 and 6): the hexadecimal codec of
  identifiers, and a \<open>traceparent\<close>/\<open>tracestate\<close> adapter. The theorems about the code hold
  for every library; this one evaluates them on concrete inputs, and states what the
  specification says about the values an identifier or a header has.
\<close>

fun hex :: "nat \<Rightarrow> string" where
  "hex n = (if n < 16 then [''0123456789abcdef'' ! n]
            else hex (n div 16) @ [''0123456789abcdef'' ! (n mod 16)])"

declare hex.simps [simp del]

definition zeroPad :: "nat \<Rightarrow> string \<Rightarrow> string" where
  "zeroPad n s = replicate (n - length s) (CHR ''0'') @ s"

definition hexValue :: "char \<Rightarrow> nat option" where
  "hexValue c =
     map_of (zip ''0123456789abcdefABCDEF''
               [0, 1, 2, 3, 4, 5, 6, 7, 8, 9, 10, 11, 12, 13, 14, 15, 10, 11, 12, 13, 14, 15]) c"

fun parseHex :: "nat \<Rightarrow> string \<Rightarrow> nat option" where
  "parseHex acc [] = Some acc"
| "parseHex acc (c # cs) =
     (case hexValue c of None \<Rightarrow> None | Some d \<Rightarrow> parseHex (16 * acc + d) cs)"

text \<open>Modelled from the spec: \<open>FormatID\<close>, whose source is not in src/. "Canonical lowercase
  hex, no leading 0x, minimal digits but always at least one digit, including for zero";
  the 64 bits are read unsigned.\<close>

definition spec_FormatID :: "int64 \<Rightarrow> string" where
  "spec_FormatID n = hex (unat n)"

text \<open>Modelled from the spec: \<open>FormatLongID\<close>, whose source is not in src/. "When hi == 0,
  identical to FormatID(lo); otherwise hex(hi) zero-padded to 16 digits with hex(lo)
  zero-padded to 16 digits".\<close>

definition spec_FormatLongID :: "int64 \<Rightarrow> int64 \<Rightarrow> string" where
  "spec_FormatLongID hi lo =
     (if hi = 0 then spec_FormatID lo
      else zeroPad 16 (hex (unat hi)) @ zeroPad 16 (hex (unat lo)))"

text \<open>Modelled from the spec: \<open>ParseID\<close>, whose source is not in src/. "Parses hex; fails on
  empty string, non-hex characters, or overflow beyond 64 bits".\<close>

definition spec_ParseID :: "string \<Rightarrow> int64 option" where
  "spec_ParseID s =
     (if s = [] then None
      else case parseHex 0 s of
             None \<Rightarrow> None
           | Some n \<Rightarrow> if n < 2 ^ 64 then Some (of_nat n) else None)"

text \<open>Modelled from the spec: \<open>ParseLongID\<close>, whose source is not in src/. "If the hex string
  is at most 16 digits, hi = 0 and lo is the parsed value; if longer, splits the last 16
  digits into lo and the remainder into hi".\<close>

definition spec_ParseLongID :: "string \<Rightarrow> (int64 \<times> int64) option" where
  "spec_ParseLongID s =
     (if length s \<le> 16 then map_option (Pair 0) (spec_ParseID s)
      else case spec_ParseID (take (length s - 16) s) of
             None \<Rightarrow> None
           | Some hi \<Rightarrow> map_option (Pair hi) (spec_ParseID (drop (length s - 16) s)))"

fun split :: "char \<Rightarrow> string \<Rightarrow> string list" where
  "split sep [] = [[]]"
| "split sep (c # cs) =
     (if c = sep then [] # split sep cs
      else case split sep cs of [] \<Rightarrow> [[c]] | p # ps \<Rightarrow> (c # p) # ps)"

fun join :: "string \<Rightarrow> string list \<Rightarrow> string" where
  "join sep [] = []"
| "join sep [e] = e"
| "join sep (e # es) = e @ sep @ join sep es"

definition zeroParent :: W3C_Parent where
  "zeroParent = \<lparr>W3C_Version = 0, W3C_TraceID = [], W3C_ParentID = [],
                  W3C_Flags = \<lparr>W3C_Sampled = False\<rparr>\<rparr>"

text \<open>Modelled from the spec: \<open>Parent.String()\<close> of package \<open>w3ctrace\<close>, whose source is not in
  src/, and with it the format the rest of the package is modelled on. The foreign
  parent header holds "version, 128-bit trace id, parent id, flags", here two, 32, 16 and
  two hexadecimal digits joined by hyphens; the state header is a "vendor=value list",
  joined by commas. A context is zero when both raw strings are empty. \<open>Parent\<close> of a
  string that is not of this form is the zero parent, \<open>Add\<close> puts the new entry first and
  keeps every entry of another vendor in its place, \<open>Inject\<close> replaces the two headers and
  \<open>Extract\<close> fails when there is no parent header.\<close>

definition spec_ParentString :: "W3C_Parent \<Rightarrow> string" where
  "spec_ParentString p =
     zeroPad 2 (hex (W3C_Version p)) @ ''-'' @ zeroPad 32 (W3C_TraceID p) @ ''-''
       @ zeroPad 16 (W3C_ParentID p) @ ''-''
       @ (if W3C_Sampled (W3C_Flags p) then ''01'' else ''00'')"

text \<open>Modelled from the spec: \<open>Context.Parent()\<close> of package \<open>w3ctrace\<close>, not in src/: the
  "parent-field accessor", reading the four fields back from the raw header.\<close>

definition spec_Parent :: "W3C_Context \<Rightarrow> W3C_Parent" where
  "spec_Parent c =
     (case split (CHR ''-'') (RawParent c) of
        [v, t, p, f] \<Rightarrow>
          (if length v = 2 \<and> length t = 32 \<and> length p = 16 \<and> length f = 2
           then (case (parseHex 0 v, parseHex 0 f) of
                   (Some ver, Some fl) \<Rightarrow>
                     \<lparr>W3C_Version = ver, W3C_TraceID = t, W3C_ParentID = p,
                      W3C_Flags = \<lparr>W3C_Sampled = odd fl\<rparr>\<rparr>
                 | _ \<Rightarrow> zeroParent)
           else zeroParent)
      | _ \<Rightarrow> zeroParent)"

text \<open>Modelled from the spec: \<open>w3ctrace.New\<close> and \<open>Context.IsZero()\<close>, not in src/: the context
  of a parent has that parent's header and no state; "a zero value meaning no foreign
  context associated" has neither.\<close>

definition spec_New :: "W3C_Parent \<Rightarrow> W3C_Context" where
  "spec_New p = \<lparr>RawParent = spec_ParentString p, RawState = []\<rparr>"

definition spec_IsZero :: "W3C_Context \<Rightarrow> bool" where
  "spec_IsZero c = (RawParent c = [] \<and> RawState c = [])"

text \<open>Modelled from the spec: \<open>Context.State()\<close> and the methods \<open>Fetch\<close>, \<open>Add\<close> and \<open>String\<close>
  of \<open>State\<close>, not in src/: the "vendor-state accessor", the lookup of a vendor key, and
  "upserting the known vendor entry into its state (preserving all other vendor entries
  and their relative order)".\<close>

definition spec_State :: "W3C_Context \<Rightarrow> W3C_State" where
  "spec_State c = (if RawState c = [] then [] else split (CHR '','') (RawState c))"

definition spec_Fetch :: "W3C_State \<Rightarrow> string \<Rightarrow> string option" where
  "spec_Fetch st vendor =
     (case filter (\<lambda>e. HasPrefix e (vendor @ ''='')) st of
        [] \<Rightarrow> None
      | e # es \<Rightarrow> Some (drop (length vendor + 1) e))"

definition spec_Add :: "W3C_State \<Rightarrow> string \<Rightarrow> string \<Rightarrow> W3C_State" where
  "spec_Add st vendor data =
     (vendor @ ''='' @ data) # filter (\<lambda>e. \<not> HasPrefix e (vendor @ ''='')) st"

definition spec_StateString :: "W3C_State \<Rightarrow> string" where
  "spec_StateString st = join '','' st"

text \<open>Modelled from the spec: \<open>w3ctrace.Inject\<close> and \<open>w3ctrace.Extract\<close>, not in src/: "writing
  the resulting two foreign headers", and parsing them from a header map.\<close>

definition spec_Inject :: "W3C_Context \<Rightarrow> Header \<Rightarrow> Header" where
  "spec_Inject trCtx h =
     Header_Set ''tracestate'' (RawState trCtx)
       (Header_Set ''traceparent'' (RawParent trCtx)
          (filter (\<lambda>(k, vals). map ToLowerChar k \<noteq> ''traceparent''
                             \<and> map ToLowerChar k \<noteq> ''tracestate'') h))"

definition spec_Extract :: "Header \<Rightarrow> W3C_Context option" where
  "spec_Extract h =
     (let tr = \<lparr>RawParent = Header_Get h ''traceparent'', RawState = Header_Get h ''tracestate''\<rparr>
      in if RawParent tr = [] then None else Some tr)"

text \<open>A stand-in for Go's UTF-8 decoding and \<open>unicode.ToLower\<close>, which belong to Go's
  standard library: right on the strings evaluated in this file, which are ASCII but
  for the letter U+0130 (the bytes C4 B0, whose lower case is \<open>i\<close>). Any other byte from
  0x80 on is taken for a rune of its own and copied.\<close>

definition dottedI :: string where
  "dottedI = [CHR 0xC4, CHR 0xB0]"

definition spec_runeWidth :: "string \<Rightarrow> nat" where
  "spec_runeWidth s = (if take 2 s = dottedI then 2 else 1)"

definition spec_runeString :: "string \<Rightarrow> string" where
  "spec_runeString s = take (spec_runeWidth s) s"

definition spec_runeLower :: "string \<Rightarrow> string" where
  "spec_runeLower s = (if take 2 s = dottedI then ''i'' else take 1 s)"

definition spec_lib :: lib where
  "spec_lib =
     \<lparr>FormatID = spec_FormatID, FormatLongID = spec_FormatLongID,
      ParseID = spec_ParseID, ParseLongID = spec_ParseLongID,
      Version_Max = 0, VendorInstana = ''in'',
      New = spec_New, IsZero = spec_IsZero, Parent = spec_Parent,
      ParentString = spec_ParentString, State = spec_State, Fetch = spec_Fetch,
      Add = spec_Add, StateString = spec_StateString, Inject = spec_Inject,
      Extract = spec_Extract, runeWidth = spec_runeWidth, runeString = spec_runeString,
      runeLower = spec_runeLower\<rparr>"

section \<open>Example inputs\<close>

text \<open>A world whose generator returns 7, 8, 9, ... and whose heap holds one baggage map,
  \<open>{"user": "alice"}\<close>, at address 0; and a context that owns that map.\<close>

definition exampleWorld :: world where
  "exampleWorld = \<lparr>rnd = (\<lambda>n. of_nat n + 7), tick = 0, heap = [[(''user'', ''alice'')]]\<rparr>"

definition exampleContext :: SpanContext where
  "exampleContext = zeroSpanContext\<lparr>TraceID := 26, SpanID := 99, Baggage := Some 0,
     Links := [\<lparr>RefTraceID = ''1'', RefSpanID = ''2''\<rparr>], ForeignTrace := True\<rparr>"

definition noOptions :: Options where
  "noOptions = \<lparr>disableW3CTraceCorrelation = False\<rparr>"

text \<open>Parents that hold a foreign context only: one with a trace id and a parent id,
  one whose identifiers are all zero, one whose parent header is not of the format.\<close>

definition validForeignParent :: SpanContext where
  "validForeignParent = zeroSpanContext\<lparr>W3CContext :=
     \<lparr>RawParent = ''00-0000000000000000000000000000abcd-0000000000000012-01'',
      RawState = ''rojo=1,in=12;34''\<rparr>\<rparr>"

definition zeroForeignParent :: SpanContext where
  "zeroForeignParent = zeroSpanContext\<lparr>W3CContext :=
     \<lparr>RawParent = ''00-00000000000000000000000000000000-0000000000000000-01'',
      RawState = []\<rparr>\<rparr>"

definition garbageForeignParent :: SpanContext where
  "garbageForeignParent = zeroSpanContext\<lparr>W3CContext :=
     \<lparr>RawParent = ''garbage'', RawState = ''rojo=1''\<rparr>\<rparr>"

definition correlationDisabled :: Options where
  "correlationDisabled = \<lparr>disableW3CTraceCorrelation = True\<rparr>"

text \<open>Carriers: the text map of the specification's example, and a text map that holds
  the trace-id field under two spellings.\<close>

definition exampleCarrier :: carrier where
  "exampleCarrier = TextMapCarrier
     [(''x-instana-t'', ''1a''), (''x-instana-s'', ''2b''), (''x-instana-l'', ''0''),
      (''x-instana-b-user'', ''alice'')]"

definition duplicateCarrier :: carrier where
  "duplicateCarrier = TextMapCarrier [(''x-instana-t'', ''1a''), (''X-Instana-T'', ''1a'')]"

text \<open>A text map that already holds a baggage entry, and a context with trace id 26 and
  span id 99, no baggage and no foreign context.\<close>

definition staleCarrier :: carrier where
  "staleCarrier = TextMapCarrier [(''x-instana-b-old'', ''1'')]"

definition plainContext :: SpanContext where
  "plainContext = zeroSpanContext\<lparr>TraceID := 26, SpanID := 99\<rparr>"


text \<open>A header map whose trace-id header has two values, and a text map whose trace-id
  key is spelled with U+0130 (in UTF-8 the bytes C4 B0).\<close>

definition repeatedHeaderCarrier :: carrier where
  "repeatedHeaderCarrier = HTTPHeadersCarrier [(''X-Instana-T'', [''1a'', ''1b''])]"

definition dottedCarrier :: carrier where
  "dottedCarrier = TextMapCarrier
     [(''x-'' @ dottedI @ ''nstana-t'', ''1a''), (''x-instana-s'', ''2b'')]"

section \<open>Frame lemmas: the generator and the heap\<close>

lemma randomID_simps:
  "fst (randomID w) = rnd w (tick w)" "tick (snd (randomID w)) = Suc (tick w)"
  "rnd (snd (randomID w)) = rnd w" "heap (snd (randomID w)) = heap w"
  by (simp_all add: randomID_def)

lemma map_set_frame:
  "rnd (map_set b k v w) = rnd w" "tick (map_set b k v w) = tick w"
  "length (heap (map_set b k v w)) = length (heap w)"
  by (simp_all add: map_set_def)

lemma copy_entries_frame:
  "rnd (copy_entries b kvs w) = rnd w \<and> tick (copy_entries b kvs w) = tick w
   \<and> length (heap (copy_entries b kvs w)) = length (heap w)"
  by (induction kvs arbitrary: w) (auto simp: map_set_frame)

text \<open>The copying loop replaces the container at \<open>b\<close> by the stores of the entries, one
  after the other, and touches no other container.\<close>

lemma copy_entries_heap:
  "b < length (heap w) \<Longrightarrow>
   heap (copy_entries b kvs w) = (heap w)[b := fold (\<lambda>(k, v). AList.update k v) kvs (heap w ! b)]"
proof (induction kvs arbitrary: w)
  case Nil
  then show ?case by simp
next
  case (Cons kv kvs)
  obtain k v where kv: "kv = (k, v)" by (cases kv)
  have "b < length (heap (map_set b k v w))" using Cons.prems by (simp add: map_set_frame)
  from Cons.IH[OF this] show ?case using Cons.prems
    by (simp add: kv map_set_def)
qed

lemma map_of_fold_update:
  "distinct (map fst kvs) \<Longrightarrow>
   map_of (fold (\<lambda>(k, v). AList.update k v) kvs m) = map_of m ++ map_of kvs"
proof (induction kvs arbitrary: m)
  case Nil
  then show ?case by simp
next
  case (Cons kv kvs)
  obtain k v where kv: "kv = (k, v)" by (cases kv)
  have notin: "k \<notin> dom (map_of kvs)" using Cons.prems by (simp add: kv dom_map_of_conv_image_fst)
  have "map_of (fold (\<lambda>(k, v). AList.update k v) (kv # kvs) m) = map_of (AList.update k v m) ++ map_of kvs"
    using Cons by (simp add: kv)
  also have "\<dots> = (map_of m)(k \<mapsto> v) ++ map_of kvs" by (simp add: update_conv')
  also have "\<dots> = map_of m ++ map_of (kv # kvs)"
    using notin by (simp add: kv map_add_upd_left)
  finally show ?case .
qed

lemma Clone_fields:
  "TraceIDHi (fst (Clone c w)) = TraceIDHi c" "TraceID (fst (Clone c w)) = TraceID c"
  "SpanID (fst (Clone c w)) = SpanID c" "ParentID (fst (Clone c w)) = ParentID c"
  "Sampled (fst (Clone c w)) = Sampled c" "Suppressed (fst (Clone c w)) = Suppressed c"
  "W3CContext (fst (Clone c w)) = W3CContext c" "Links (fst (Clone c w)) = []"
  "ForeignTrace (fst (Clone c w)) = False" "Correlation (fst (Clone c w)) = \<lparr>Type = [], ID = []\<rparr>"
  "ForeignParent (fst (Clone c w)) = None"
  by (simp_all add: Clone_def Let_def zeroSpanContext_def make_map_def split: option.splits)

lemma Clone_world:
  "rnd (snd (Clone c w)) = rnd w" "tick (snd (Clone c w)) = tick w"
  by (simp_all add: Clone_def Let_def make_map_def copy_entries_frame split: option.splits)

section \<open>Root contexts\<close>

text \<open>
  C9. \<open>NewRootSpanContext\<close> draws one identifier from the generator (and no more: the
  world it returns is the one after that single draw), assigns it to both \<open>TraceID\<close> and
  \<open>SpanID\<close>, leaves \<open>TraceIDHi\<close> and \<open>ParentID\<close> zero, and sets the foreign context to the one
  \<open>w3ctrace.New\<close> builds from the parent whose trace id is \<open>FormatLongID(TraceIDHi, TraceID)\<close>,
  whose parent id is \<open>FormatID(SpanID)\<close> and whose sampled flag is the negation of
  \<open>Suppressed\<close>.
\<close>

theorem NewRootSpanContext_spec:
  "TraceID (fst (NewRootSpanContext L w)) = fst (randomID w) \<and>
   SpanID (fst (NewRootSpanContext L w)) = fst (randomID w) \<and>
   TraceIDHi (fst (NewRootSpanContext L w)) = 0 \<and>
   ParentID (fst (NewRootSpanContext L w)) = 0 \<and>
   snd (NewRootSpanContext L w) = snd (randomID w) \<and>
   W3CContext (fst (NewRootSpanContext L w)) =
     New L \<lparr>W3C_Version = Version_Max L,
            W3C_TraceID = FormatLongID L (TraceIDHi (fst (NewRootSpanContext L w)))
                            (TraceID (fst (NewRootSpanContext L w))),
            W3C_ParentID = FormatID L (SpanID (fst (NewRootSpanContext L w))),
            W3C_Flags = \<lparr>W3C_Sampled = \<not> Suppressed (fst (NewRootSpanContext L w))\<rparr>\<rparr>"
  by (simp add: NewRootSpanContext_def newW3CTraceContext_def zeroSpanContext_def
      split_beta Let_def)

section \<open>Clone and WithBaggageItem\<close>

lemma Clone_nil: "Baggage c = None \<Longrightarrow> Baggage (fst (Clone c w)) = None \<and> snd (Clone c w) = w"
  by (simp add: Clone_def Let_def zeroSpanContext_def)

lemma Clone_heap:
  assumes "Baggage c = Some a" "a < length (heap w)"
  shows "Baggage (fst (Clone c w)) = Some (length (heap w))"
    and "heap (snd (Clone c w)) =
           heap w @ [fold (\<lambda>(k, v). AList.update k v) (heap w ! a) []]"
  using assms
  by (simp_all add: Clone_def Let_def zeroSpanContext_def make_map_def copy_entries_heap)

lemma Clone_old_heap:
  assumes "\<forall>a. Baggage c = Some a \<longrightarrow> a < length (heap w)" "i < length (heap w)"
  shows "heap (snd (Clone c w)) ! i = heap w ! i"
proof (cases "Baggage c")
  case None
  then show ?thesis by (simp add: Clone_nil)
next
  case (Some a)
  then show ?thesis using assms by (simp add: Clone_heap nth_append)
qed

lemma Clone_length:
  assumes "\<forall>a. Baggage c = Some a \<longrightarrow> a < length (heap w)"
  shows "length (heap w) \<le> length (heap (snd (Clone c w)))"
proof (cases "Baggage c")
  case None
  then show ?thesis by (simp add: Clone_nil)
next
  case (Some a)
  then show ?thesis using assms by (simp add: Clone_heap)
qed

lemma Clone_copy:
  assumes "Baggage c = Some a" "a < length (heap w)" "distinct (map fst (heap w ! a))"
  shows "map_of (heap (snd (Clone c w)) ! length (heap w)) = map_of (heap w ! a)"
  using assms by (simp add: Clone_heap map_of_fold_update)

lemma WithBaggageItem_fields:
  "TraceIDHi (fst (WithBaggageItem c key val w)) = TraceIDHi c"
  "TraceID (fst (WithBaggageItem c key val w)) = TraceID c"
  "SpanID (fst (WithBaggageItem c key val w)) = SpanID c"
  "ParentID (fst (WithBaggageItem c key val w)) = ParentID c"
  "Sampled (fst (WithBaggageItem c key val w)) = Sampled c"
  "Suppressed (fst (WithBaggageItem c key val w)) = Suppressed c"
  "W3CContext (fst (WithBaggageItem c key val w)) = W3CContext c"
  "Links (fst (WithBaggageItem c key val w)) = []"
  "ForeignTrace (fst (WithBaggageItem c key val w)) = False"
  "Correlation (fst (WithBaggageItem c key val w)) = \<lparr>Type = [], ID = []\<rparr>"
  by (simp_all add: WithBaggageItem_def split_beta Let_def Clone_fields split: option.splits)

lemma WithBaggageItem_heap:
  assumes "\<forall>a. Baggage c = Some a \<longrightarrow> a < length (heap w) \<and> distinct (map fst (heap w ! a))"
  shows "Baggage (fst (WithBaggageItem c key val w)) = Some (length (heap w))"
    and "map_of (heap (snd (WithBaggageItem c key val w)) ! length (heap w))
           = (map_of (baggage_entries c w))(key \<mapsto> val)"
    and "\<forall>i<length (heap w). heap (snd (WithBaggageItem c key val w)) ! i = heap w ! i"
proof -
  show "Baggage (fst (WithBaggageItem c key val w)) = Some (length (heap w))"
    using assms
    by (cases "Baggage c")
      (simp_all add: WithBaggageItem_def split_beta Let_def Clone_nil Clone_heap make_map_def)
  show "map_of (heap (snd (WithBaggageItem c key val w)) ! length (heap w))
           = (map_of (baggage_entries c w))(key \<mapsto> val)"
  proof (cases "Baggage c")
    case None
    then show ?thesis
      by (simp add: WithBaggageItem_def split_beta Let_def Clone_nil make_map_def map_set_def
          baggage_entries_def)
  next
    case (Some a)
    then show ?thesis using assms
      by (simp add: WithBaggageItem_def split_beta Let_def Clone_heap map_set_def
          baggage_entries_def update_conv' map_of_fold_update)
  qed
  show "\<forall>i<length (heap w). heap (snd (WithBaggageItem c key val w)) ! i = heap w ! i"
  proof (cases "Baggage c")
    case None
    then show ?thesis
      by (simp add: WithBaggageItem_def split_beta Let_def Clone_nil make_map_def map_set_def
          nth_append)
  next
    case (Some a)
    then show ?thesis using assms
      by (simp add: WithBaggageItem_def split_beta Let_def Clone_heap map_set_def nth_append)
  qed
qed

text \<open>
  C10. For a context whose baggage, if it has one, is a map of the heap: \<open>Clone\<close> returns a
  context with no links, \<open>ForeignTrace\<close> false and an empty \<open>Correlation\<close>, whatever they
  were; the four identifiers, \<open>Sampled\<close>, \<open>Suppressed\<close> and the foreign context are the
  original's. A nil baggage stays nil; otherwise the clone's baggage is a newly allocated
  map (an address the heap did not have before, so different from the original's) with
  the same entries. No map that existed before is changed by \<open>Clone\<close>, nor by a later
  store into the clone's map. \<open>WithBaggageItem\<close> has the same zeroed and copied fields; its
  result owns a new map holding the original's entries and the new pair, and every map
  that existed before, the original's among them, is as it was.
\<close>

theorem Clone_spec:
  assumes wf: "\<forall>a. Baggage c = Some a \<longrightarrow> a < length (heap w) \<and> distinct (map fst (heap w ! a))"
  shows
  "(Links (fst (Clone c w)) = [] \<and> ForeignTrace (fst (Clone c w)) = False \<and>
    Correlation (fst (Clone c w)) = \<lparr>Type = [], ID = []\<rparr> \<and>
    TraceIDHi (fst (Clone c w)) = TraceIDHi c \<and> TraceID (fst (Clone c w)) = TraceID c \<and>
    SpanID (fst (Clone c w)) = SpanID c \<and> ParentID (fst (Clone c w)) = ParentID c \<and>
    Sampled (fst (Clone c w)) = Sampled c \<and> Suppressed (fst (Clone c w)) = Suppressed c \<and>
    W3CContext (fst (Clone c w)) = W3CContext c) \<and>
   (Baggage c = None \<longrightarrow> Baggage (fst (Clone c w)) = None) \<and>
   (\<forall>a. Baggage c = Some a \<longrightarrow>
      Baggage (fst (Clone c w)) = Some (length (heap w)) \<and> length (heap w) \<noteq> a \<and>
      map_of (heap (snd (Clone c w)) ! length (heap w)) = map_of (heap w ! a)) \<and>
   (\<forall>i<length (heap w). heap (snd (Clone c w)) ! i = heap w ! i) \<and>
   (\<forall>b k v. Baggage (fst (Clone c w)) = Some b \<longrightarrow>
      (\<forall>i<length (heap w). heap (map_set b k v (snd (Clone c w))) ! i = heap w ! i)) \<and>
   (Links (fst (WithBaggageItem c key val w)) = [] \<and>
    ForeignTrace (fst (WithBaggageItem c key val w)) = False \<and>
    Correlation (fst (WithBaggageItem c key val w)) = \<lparr>Type = [], ID = []\<rparr> \<and>
    TraceIDHi (fst (WithBaggageItem c key val w)) = TraceIDHi c \<and>
    TraceID (fst (WithBaggageItem c key val w)) = TraceID c \<and>
    SpanID (fst (WithBaggageItem c key val w)) = SpanID c \<and>
    ParentID (fst (WithBaggageItem c key val w)) = ParentID c \<and>
    Sampled (fst (WithBaggageItem c key val w)) = Sampled c \<and>
    Suppressed (fst (WithBaggageItem c key val w)) = Suppressed c \<and>
    W3CContext (fst (WithBaggageItem c key val w)) = W3CContext c) \<and>
   Baggage (fst (WithBaggageItem c key val w)) = Some (length (heap w)) \<and>
   map_of (heap (snd (WithBaggageItem c key val w)) ! length (heap w))
     = (map_of (baggage_entries c w))(key \<mapsto> val) \<and>
   (\<forall>i<length (heap w). heap (snd (WithBaggageItem c key val w)) ! i = heap w ! i)"
proof -
  have wf1: "\<forall>a. Baggage c = Some a \<longrightarrow> a < length (heap w)" using wf by blast
  have fields: "Links (fst (Clone c w)) = [] \<and> ForeignTrace (fst (Clone c w)) = False \<and>
    Correlation (fst (Clone c w)) = \<lparr>Type = [], ID = []\<rparr> \<and>
    TraceIDHi (fst (Clone c w)) = TraceIDHi c \<and> TraceID (fst (Clone c w)) = TraceID c \<and>
    SpanID (fst (Clone c w)) = SpanID c \<and> ParentID (fst (Clone c w)) = ParentID c \<and>
    Sampled (fst (Clone c w)) = Sampled c \<and> Suppressed (fst (Clone c w)) = Suppressed c \<and>
    W3CContext (fst (Clone c w)) = W3CContext c"
    by (simp add: Clone_fields)
  have nil: "Baggage c = None \<longrightarrow> Baggage (fst (Clone c w)) = None"
    by (simp add: Clone_nil)
  have copy: "\<forall>a. Baggage c = Some a \<longrightarrow>
      Baggage (fst (Clone c w)) = Some (length (heap w)) \<and> length (heap w) \<noteq> a \<and>
      map_of (heap (snd (Clone c w)) ! length (heap w)) = map_of (heap w ! a)"
    using wf by (auto simp: Clone_heap map_of_fold_update)
  have frame: "\<forall>i<length (heap w). heap (snd (Clone c w)) ! i = heap w ! i"
    using Clone_old_heap[OF wf1] by blast
  have mutate: "\<forall>b k v. Baggage (fst (Clone c w)) = Some b \<longrightarrow>
      (\<forall>i<length (heap w). heap (map_set b k v (snd (Clone c w))) ! i = heap w ! i)"
  proof (intro allI impI)
    fix b k v i
    assume b: "Baggage (fst (Clone c w)) = Some b" and i: "i < length (heap w)"
    from b obtain a where a: "Baggage c = Some a"
      by (cases "Baggage c") (auto simp: Clone_nil)
    with wf1 have "a < length (heap w)" by blast
    with a b have "b = length (heap w)" by (simp add: Clone_heap)
    with i have "b \<noteq> i" by simp
    then show "heap (map_set b k v (snd (Clone c w))) ! i = heap w ! i"
      using frame i by (simp add: map_set_def)
  qed
  have wfields: "Links (fst (WithBaggageItem c key val w)) = [] \<and>
    ForeignTrace (fst (WithBaggageItem c key val w)) = False \<and>
    Correlation (fst (WithBaggageItem c key val w)) = \<lparr>Type = [], ID = []\<rparr> \<and>
    TraceIDHi (fst (WithBaggageItem c key val w)) = TraceIDHi c \<and>
    TraceID (fst (WithBaggageItem c key val w)) = TraceID c \<and>
    SpanID (fst (WithBaggageItem c key val w)) = SpanID c \<and>
    ParentID (fst (WithBaggageItem c key val w)) = ParentID c \<and>
    Sampled (fst (WithBaggageItem c key val w)) = Sampled c \<and>
    Suppressed (fst (WithBaggageItem c key val w)) = Suppressed c \<and>
    W3CContext (fst (WithBaggageItem c key val w)) = W3CContext c"
    by (simp add: WithBaggageItem_fields)
  show ?thesis
    using fields nil copy frame mutate wfields WithBaggageItem_heap[OF wf] by blast
qed

theorem Clone_spec_witness:
  "Baggage exampleContext = Some 0 \<and> 0 < length (heap exampleWorld) \<and>
   Links (fst (Clone exampleContext exampleWorld)) = [] \<and>
   ForeignTrace (fst (Clone exampleContext exampleWorld)) = False \<and>
   Baggage (fst (Clone exampleContext exampleWorld)) = Some 1 \<and>
   map_of (heap (snd (Clone exampleContext exampleWorld)) ! 1) = map_of [(''user'', ''alice'')] \<and>
   heap (snd (WithBaggageItem exampleContext ''k'' ''v'' exampleWorld)) ! 0 = [(''user'', ''alice'')] \<and>
   map_of (heap (snd (WithBaggageItem exampleContext ''k'' ''v'' exampleWorld)) ! 1)
     = [''user'' \<mapsto> ''alice'', ''k'' \<mapsto> ''v'']"
  using Clone_spec[of exampleContext exampleWorld "''k''" "''v''"]
  by (simp add: exampleContext_def exampleWorld_def baggage_entries_def)

section \<open>Deriving a child context\<close>

lemma IndexByte_absent: "c \<notin> set s \<Longrightarrow> IndexByte s c = -1"
  by (induction s) auto

lemma IndexByte_neg_iff: "IndexByte s c < 0 \<longleftrightarrow> c \<notin> set s"
  by (induction s) (auto simp: Let_def)

lemma IndexByte_first: "c \<notin> set t \<Longrightarrow> IndexByte (t @ c # s) c = int (length t)"
  by (induction t) (auto simp: Let_def)

lemma parseW3CInstanaState_None: "CHR '';'' \<notin> set v \<Longrightarrow> parseW3CInstanaState v = None"
  by (simp add: parseW3CInstanaState_def IndexByte_absent)

lemma parseW3CInstanaState_Some:
  "CHR '';'' \<notin> set t \<Longrightarrow>
   parseW3CInstanaState (t @ CHR '';'' # s) = Some \<lparr>RefTraceID = t, RefSpanID = s\<rparr>"
  by (simp add: parseW3CInstanaState_def IndexByte_first)

lemma parseW3CInstanaState_None_iff: "parseW3CInstanaState v = None \<longleftrightarrow> CHR '';'' \<notin> set v"
  by (simp add: parseW3CInstanaState_def IndexByte_neg_iff Let_def)

lemma NewSpanContext_paths:
  "NewSpanContext L opts parent0 w =
     (if noNativeIDs parent0
      then (if noNativeIDs (restoreFromW3CTraceContext L opts (W3CContext parent0))
            then rootPath L (restoreFromW3CTraceContext L opts (W3CContext parent0)) w
            else clonePath L (\<not> disableW3CTraceCorrelation opts)
                   (restoreFromW3CTraceContext L opts (W3CContext parent0)) w)
      else clonePath L False parent0 w)"
proof (cases "noNativeIDs parent0")
  case False
  then show ?thesis
    by (simp add: NewSpanContext_def clonePath_def noNativeIDs_def[symmetric] split_beta Let_def
        split del: if_split cong del: if_weak_cong cong: option.case_cong)
next
  case True
  show ?thesis
  proof (cases "noNativeIDs (restoreFromW3CTraceContext L opts (W3CContext parent0))")
    case rz: True
    with True show ?thesis
      by (simp add: NewSpanContext_def rootPath_def noNativeIDs_def[symmetric] split_beta Let_def
          split del: if_split cong del: if_weak_cong cong: option.case_cong)
  next
    case rnz: False
    with True show ?thesis
      by (simp add: NewSpanContext_def clonePath_def noNativeIDs_def[symmetric] split_beta Let_def
          split del: if_split cong del: if_weak_cong cong: option.case_cong)
  qed
qed


lemma clonePath_fields:
  "TraceIDHi (fst (clonePath L ft parent w)) = TraceIDHi parent"
  "TraceID (fst (clonePath L ft parent w)) = TraceID parent"
  "SpanID (fst (clonePath L ft parent w)) = fst (randomID w)"
  "ParentID (fst (clonePath L ft parent w)) = SpanID parent"
  "Suppressed (fst (clonePath L ft parent w)) = Suppressed parent"
  "ForeignTrace (fst (clonePath L ft parent w)) = ft"
  by (simp_all add: clonePath_def split_beta Let_def Clone_fields Clone_world randomID_def
      split: option.split)



lemma rootPath_fields:
  "ForeignTrace (fst (rootPath L parent w)) = False"
  "Links (fst (rootPath L parent w)) = []"
  "ParentID (fst (rootPath L parent w)) = 0"
  "TraceID (fst (rootPath L parent w)) = fst (randomID w)"
  by (simp_all add: rootPath_def NewRootSpanContext_def split_beta Let_def zeroSpanContext_def)



section \<open>Deriving from a foreign context\<close>

lemma restore_enabled:
  assumes "\<not> IsZero L ctx" "\<not> disableW3CTraceCorrelation opts"
    "ParseLongID L (W3C_TraceID (Parent L ctx)) = Some (hi, lo)"
    "ParseID L (W3C_ParentID (Parent L ctx)) = Some pid"
  shows "restoreFromW3CTraceContext L opts ctx =
           zeroSpanContext\<lparr>TraceIDHi := hi, TraceID := lo, SpanID := pid,
             Suppressed := \<not> W3C_Sampled (W3C_Flags (Parent L ctx)), W3CContext := ctx\<rparr>"
  using assms by (simp add: restoreFromW3CTraceContext_def Let_def)

lemma restore_enabled_failure:
  assumes "\<not> disableW3CTraceCorrelation opts"
    "ParseLongID L (W3C_TraceID (Parent L ctx)) = None
     \<or> ParseID L (W3C_ParentID (Parent L ctx)) = None"
  shows "restoreFromW3CTraceContext L opts ctx = zeroSpanContext"
  using assms by (auto simp: restoreFromW3CTraceContext_def Let_def split: option.splits)

lemma restore_enabled_cases:
  assumes "\<not> disableW3CTraceCorrelation opts"
  shows "restoreFromW3CTraceContext L opts ctx = zeroSpanContext
         \<or> (\<not> IsZero L ctx \<and> W3CContext (restoreFromW3CTraceContext L opts ctx) = ctx)"
  using assms by (auto simp: restoreFromW3CTraceContext_def Let_def split: option.splits)

lemma noNativeIDs_zero: "noNativeIDs zeroSpanContext"
  by (simp add: noNativeIDs_def zeroSpanContext_def)

text \<open>The derivation from a restored parent whose foreign context is not zero.\<close>

lemma clonePath_foreign:
  assumes "\<not> IsZero L (W3CContext parent)"
  shows "W3CContext (fst (clonePath L ft parent w)) =
           (W3CContext parent)\<lparr>RawParent :=
              ParentString L ((Parent L (W3CContext parent))\<lparr>W3C_ParentID := FormatID L (fst (randomID w))\<rparr>)\<rparr>"
    and "Links (fst (clonePath L True parent w)) =
           (case Fetch L (State L (W3CContext (fst (clonePath L True parent w)))) (VendorInstana L) of
              None \<Rightarrow> []
            | Some ancestor \<Rightarrow>
                (case parseW3CInstanaState ancestor of None \<Rightarrow> [] | Some ref \<Rightarrow> [ref]))"
  using assms
  by (simp_all add: clonePath_def split_beta Let_def Clone_fields Clone_world randomID_def
      split: option.split)

text \<open>
  C3, as amended. A parent without native identifiers, with a foreign context that is
  not zero, the correlation with the foreign format not disabled, the foreign trace id
  and parent id both parsed, and the parsed identifiers not all zero: the child's
  \<open>TraceIDHi\<close> and \<open>TraceID\<close> are the two halves \<open>ParseLongID\<close> returns, its \<open>ParentID\<close> is what
  \<open>ParseID\<close> returns for the foreign parent id, \<open>Suppressed\<close> is the negation of the foreign
  sampled flag and \<open>ForeignTrace\<close> is true.
\<close>

theorem NewSpanContext_foreign_parent:
  assumes zero: "TraceIDHi parent = 0 \<and> TraceID parent = 0 \<and> SpanID parent = 0"
    and ctx: "\<not> IsZero L (W3CContext parent)"
    and enabled: "\<not> disableW3CTraceCorrelation opts"
    and trace: "ParseLongID L (W3C_TraceID (Parent L (W3CContext parent))) = Some (hi, lo)"
    and span: "ParseID L (W3C_ParentID (Parent L (W3CContext parent))) = Some pid"
    and nonzero: "hi \<noteq> 0 \<or> lo \<noteq> 0 \<or> pid \<noteq> 0"
  shows "TraceIDHi (fst (NewSpanContext L opts parent w)) = hi \<and>
         TraceID (fst (NewSpanContext L opts parent w)) = lo \<and>
         ParentID (fst (NewSpanContext L opts parent w)) = pid \<and>
         Suppressed (fst (NewSpanContext L opts parent w))
           = (\<not> W3C_Sampled (W3C_Flags (Parent L (W3CContext parent)))) \<and>
         ForeignTrace (fst (NewSpanContext L opts parent w)) = True"
proof -
  let ?r = "restoreFromW3CTraceContext L opts (W3CContext parent)"
  have r: "?r = zeroSpanContext\<lparr>TraceIDHi := hi, TraceID := lo, SpanID := pid,
             Suppressed := \<not> W3C_Sampled (W3C_Flags (Parent L (W3CContext parent))),
             W3CContext := W3CContext parent\<rparr>"
    by (rule restore_enabled[OF ctx enabled trace span])
  have rn: "\<not> noNativeIDs ?r" using nonzero by (auto simp: r noNativeIDs_def)
  have pz: "noNativeIDs parent" using zero by (simp add: noNativeIDs_def)
  have p: "NewSpanContext L opts parent w = clonePath L True ?r w"
    using pz rn enabled by (simp add: NewSpanContext_paths)
  have f: "TraceIDHi ?r = hi" "TraceID ?r = lo" "SpanID ?r = pid"
    "Suppressed ?r = (\<not> W3C_Sampled (W3C_Flags (Parent L (W3CContext parent))))"
    by (simp_all add: r)
  show ?thesis by (simp add: p clonePath_fields f)
qed

lemma spec_lib_simps:
  "FormatID spec_lib = spec_FormatID" "FormatLongID spec_lib = spec_FormatLongID"
  "ParseID spec_lib = spec_ParseID" "ParseLongID spec_lib = spec_ParseLongID"
  "Version_Max spec_lib = 0" "VendorInstana spec_lib = ''in''"
  "New spec_lib = spec_New" "IsZero spec_lib = spec_IsZero" "Parent spec_lib = spec_Parent"
  "ParentString spec_lib = spec_ParentString" "State spec_lib = spec_State"
  "Fetch spec_lib = spec_Fetch" "Add spec_lib = spec_Add"
  "StateString spec_lib = spec_StateString" "Inject spec_lib = spec_Inject"
  "Extract spec_lib = spec_Extract" "runeWidth spec_lib = spec_runeWidth"
  "runeString spec_lib = spec_runeString" "runeLower spec_lib = spec_runeLower"
  by (simp_all add: spec_lib_def)

lemma valid_parent_parsed:
  "spec_Parent (W3CContext validForeignParent) =
     \<lparr>W3C_Version = 0, W3C_TraceID = ''0000000000000000000000000000abcd'',
      W3C_ParentID = ''0000000000000012'', W3C_Flags = \<lparr>W3C_Sampled = True\<rparr>\<rparr>"
  by (simp add: validForeignParent_def spec_Parent_def hexValue_def)

lemma valid_parent_ids:
  "spec_ParseLongID ''0000000000000000000000000000abcd'' = Some (0, 0xabcd)"
  "spec_ParseID ''0000000000000012'' = Some 0x12"
  by (simp_all add: spec_ParseLongID_def spec_ParseID_def hexValue_def)

theorem NewSpanContext_foreign_parent_witness:
  "TraceIDHi validForeignParent = 0 \<and> TraceID validForeignParent = 0 \<and>
   SpanID validForeignParent = 0 \<and> \<not> IsZero spec_lib (W3CContext validForeignParent) \<and>
   \<not> disableW3CTraceCorrelation noOptions \<and>
   TraceIDHi (fst (NewSpanContext spec_lib noOptions validForeignParent exampleWorld)) = 0 \<and>
   TraceID (fst (NewSpanContext spec_lib noOptions validForeignParent exampleWorld)) = 0xabcd \<and>
   ParentID (fst (NewSpanContext spec_lib noOptions validForeignParent exampleWorld)) = 0x12 \<and>
   Suppressed (fst (NewSpanContext spec_lib noOptions validForeignParent exampleWorld)) = False \<and>
   ForeignTrace (fst (NewSpanContext spec_lib noOptions validForeignParent exampleWorld)) = True"
  using NewSpanContext_foreign_parent[of validForeignParent spec_lib noOptions 0 "0xabcd" "0x12" exampleWorld]
  by (simp add: spec_lib_simps valid_parent_parsed valid_parent_ids noOptions_def)
    (simp add: validForeignParent_def zeroSpanContext_def spec_IsZero_def)


lemma zero_parent_parsed:
  "spec_Parent (W3CContext zeroForeignParent) =
     \<lparr>W3C_Version = 0, W3C_TraceID = ''00000000000000000000000000000000'',
      W3C_ParentID = ''0000000000000000'', W3C_Flags = \<lparr>W3C_Sampled = True\<rparr>\<rparr>"
  by (simp add: zeroForeignParent_def spec_Parent_def hexValue_def)

lemma zero_parent_ids:
  "spec_ParseLongID ''00000000000000000000000000000000'' = Some (0, 0)"
  "spec_ParseID ''0000000000000000'' = Some 0"
  by (simp_all add: spec_ParseLongID_def spec_ParseID_def hexValue_def)

lemma zero_parent_nonzero_context:
  "noNativeIDs zeroForeignParent" "\<not> spec_IsZero (W3CContext zeroForeignParent)"
  by (simp_all add: zeroForeignParent_def zeroSpanContext_def spec_IsZero_def noNativeIDs_def)

lemma example_randomID: "fst (randomID exampleWorld) = 7"
  by (simp add: randomID_def exampleWorld_def)

text \<open>
  C3 as stated fails where the foreign parent parses to identifiers that are all zero:
  the second test of \<open>NewSpanContext\<close> then takes the restored parent for one without
  native identifiers, and the result is a new root (\<open>ForeignTrace\<close> false, a generated
  \<open>TraceID\<close>) carrying the foreign context.
\<close>

theorem NewSpanContext_foreign_parent_counterexample:
  "TraceIDHi zeroForeignParent = 0 \<and> TraceID zeroForeignParent = 0 \<and>
   SpanID zeroForeignParent = 0 \<and> \<not> IsZero spec_lib (W3CContext zeroForeignParent) \<and>
   \<not> disableW3CTraceCorrelation noOptions \<and>
   ParseLongID spec_lib (W3C_TraceID (Parent spec_lib (W3CContext zeroForeignParent))) = Some (0, 0) \<and>
   ParseID spec_lib (W3C_ParentID (Parent spec_lib (W3CContext zeroForeignParent))) = Some 0 \<and>
   ForeignTrace (fst (NewSpanContext spec_lib noOptions zeroForeignParent exampleWorld)) = False \<and>
   TraceID (fst (NewSpanContext spec_lib noOptions zeroForeignParent exampleWorld)) = 7"
proof -
  have en: "\<not> disableW3CTraceCorrelation noOptions" by (simp add: noOptions_def)
  have nz: "\<not> IsZero spec_lib (W3CContext zeroForeignParent)"
    by (simp add: spec_lib_simps zero_parent_nonzero_context)
  have t: "ParseLongID spec_lib (W3C_TraceID (Parent spec_lib (W3CContext zeroForeignParent))) = Some (0, 0)"
    by (simp add: spec_lib_simps zero_parent_parsed zero_parent_ids)
  have s: "ParseID spec_lib (W3C_ParentID (Parent spec_lib (W3CContext zeroForeignParent))) = Some 0"
    by (simp add: spec_lib_simps zero_parent_parsed zero_parent_ids)
  have r: "noNativeIDs (restoreFromW3CTraceContext spec_lib noOptions (W3CContext zeroForeignParent))"
    by (simp add: restore_enabled[OF nz en t s] noNativeIDs_def zeroSpanContext_def)
  have p: "NewSpanContext spec_lib noOptions zeroForeignParent exampleWorld
             = rootPath spec_lib (restoreFromW3CTraceContext spec_lib noOptions (W3CContext zeroForeignParent)) exampleWorld"
    using r zero_parent_nonzero_context(1) by (simp add: NewSpanContext_paths)
  have z: "TraceIDHi zeroForeignParent = 0 \<and> TraceID zeroForeignParent = 0 \<and> SpanID zeroForeignParent = 0"
    using zero_parent_nonzero_context(1) by (simp add: noNativeIDs_def)
  show ?thesis
    using z en nz t s by (simp add: p rootPath_fields example_randomID)
qed

subsection \<open>A foreign context that does not parse\<close>

lemma NewSpanContext_parse_failure:
  assumes "noNativeIDs parent" "\<not> disableW3CTraceCorrelation opts" "IsZero L zeroContext"
    "ParseLongID L (W3C_TraceID (Parent L (W3CContext parent))) = None
     \<or> ParseID L (W3C_ParentID (Parent L (W3CContext parent))) = None"
  shows "NewSpanContext L opts parent w = NewRootSpanContext L w"
proof -
  have r: "restoreFromW3CTraceContext L opts (W3CContext parent) = zeroSpanContext"
    by (rule restore_enabled_failure[OF assms(2) assms(4)])
  have "NewSpanContext L opts parent w = rootPath L zeroSpanContext w"
    using assms(1) by (simp add: NewSpanContext_paths r noNativeIDs_zero)
  also have "\<dots> = NewRootSpanContext L w"
    using assms(3) by (simp add: rootPath_def split_beta zeroSpanContext_def)
  finally show ?thesis .
qed

lemma NewSpanContext_keeps_unused_context:
  assumes "noNativeIDs parent"
    "noNativeIDs (restoreFromW3CTraceContext L opts (W3CContext parent))"
    "W3CContext (restoreFromW3CTraceContext L opts (W3CContext parent)) = W3CContext parent"
    "\<not> IsZero L (W3CContext parent)"
  shows "NewSpanContext L opts parent w
           = (fst (NewRootSpanContext L w)\<lparr>W3CContext := W3CContext parent\<rparr>, snd (NewRootSpanContext L w))"
  using assms by (simp add: NewSpanContext_paths rootPath_def split_beta)

lemma garbage_parent_facts:
  "noNativeIDs garbageForeignParent"
  "\<not> spec_IsZero (W3CContext garbageForeignParent)"
  "spec_Parent (W3CContext garbageForeignParent) = zeroParent"
  "spec_ParseLongID [] = None"
  by (simp_all add: garbageForeignParent_def zeroSpanContext_def spec_IsZero_def noNativeIDs_def
      spec_Parent_def spec_ParseLongID_def spec_ParseID_def)

lemma spec_New_7:
  "spec_New \<lparr>W3C_Version = 0, W3C_TraceID = spec_FormatLongID 0 7,
             W3C_ParentID = spec_FormatID 7, W3C_Flags = \<lparr>W3C_Sampled = True\<rparr>\<rparr>
     = \<lparr>RawParent = ''00-00000000000000000000000000000007-0000000000000007-01'', RawState = []\<rparr>"
  by code_simp

text \<open>
  C2. The claim says the parent's foreign context, when it is not used, is copied onto
  the new root. It is, when the restoration returns a context that carries it (lemma
  \<open>NewSpanContext_keeps_unused_context\<close>). When a foreign parent field does not parse,
  \<open>restoreFromW3CTraceContext\<close> returns the empty context, foreign context included, and
  \<open>NewSpanContext\<close> returns a plain new root (lemma \<open>NewSpanContext_parse_failure\<close>): here a
  parent whose foreign context has the parent header \<open>garbage\<close> and the state \<open>rojo=1\<close>
  gets a root whose foreign context is the synthesized one, and the state is lost.
\<close>

theorem NewSpanContext_discards_foreign_context:
  "TraceIDHi garbageForeignParent = 0 \<and> TraceID garbageForeignParent = 0 \<and>
   SpanID garbageForeignParent = 0 \<and>
   W3CContext garbageForeignParent = \<lparr>RawParent = ''garbage'', RawState = ''rojo=1''\<rparr> \<and>
   \<not> IsZero spec_lib (W3CContext garbageForeignParent) \<and>
   restoreFromW3CTraceContext spec_lib noOptions (W3CContext garbageForeignParent) = zeroSpanContext \<and>
   W3CContext (fst (NewSpanContext spec_lib noOptions garbageForeignParent exampleWorld))
     = \<lparr>RawParent = ''00-00000000000000000000000000000007-0000000000000007-01'', RawState = []\<rparr>"
proof -
  have en: "\<not> disableW3CTraceCorrelation noOptions" by (simp add: noOptions_def)
  have f: "ParseLongID spec_lib (W3C_TraceID (Parent spec_lib (W3CContext garbageForeignParent))) = None
     \<or> ParseID spec_lib (W3C_ParentID (Parent spec_lib (W3CContext garbageForeignParent))) = None"
    by (simp add: spec_lib_simps garbage_parent_facts zeroParent_def)
  have z: "IsZero spec_lib zeroContext"
    by (simp add: spec_lib_simps spec_IsZero_def zeroContext_def)
  have p: "NewSpanContext spec_lib noOptions garbageForeignParent exampleWorld
             = NewRootSpanContext spec_lib exampleWorld"
    by (rule NewSpanContext_parse_failure[OF garbage_parent_facts(1) en z f])
  have root: "W3CContext (fst (NewRootSpanContext spec_lib exampleWorld))
     = \<lparr>RawParent = ''00-00000000000000000000000000000007-0000000000000007-01'', RawState = []\<rparr>"
    by (simp add: NewRootSpanContext_def split_beta Let_def example_randomID
        newW3CTraceContext_def zeroSpanContext_def spec_lib_simps spec_New_7)
  have ids: "TraceIDHi garbageForeignParent = 0 \<and> TraceID garbageForeignParent = 0 \<and>
     SpanID garbageForeignParent = 0"
    using garbage_parent_facts(1) by (simp add: noNativeIDs_def)
  have c: "W3CContext garbageForeignParent = \<lparr>RawParent = ''garbage'', RawState = ''rojo=1''\<rparr>"
    by (simp add: garbageForeignParent_def)
  have nz: "\<not> IsZero spec_lib (W3CContext garbageForeignParent)"
    by (simp add: spec_lib_simps garbage_parent_facts)
  have r: "restoreFromW3CTraceContext spec_lib noOptions (W3CContext garbageForeignParent) = zeroSpanContext"
    by (rule restore_enabled_failure[OF en f])
  have last: "W3CContext (fst (NewSpanContext spec_lib noOptions garbageForeignParent exampleWorld))
     = \<lparr>RawParent = ''00-00000000000000000000000000000007-0000000000000007-01'', RawState = []\<rparr>"
    by (simp only: p root)
  show ?thesis
    using ids c nz r last by blast
qed

section \<open>Restoring with the correlation disabled\<close>

lemma restoreFromW3CTraceState_indep:
  "restoreFromW3CTraceState (L\<lparr>Parent := P\<rparr>) ctx = restoreFromW3CTraceState L ctx"
  by (simp add: restoreFromW3CTraceState_def cong: option.case_cong)

lemma restore_disabled:
  assumes "\<not> IsZero L ctx" "disableW3CTraceCorrelation opts"
  shows "restoreFromW3CTraceContext L opts ctx = restoreFromW3CTraceState L ctx"
  using assms by (simp add: restoreFromW3CTraceContext_def)

lemma restoreFromW3CTraceState_absent:
  assumes "\<not> IsZero L ctx" "Fetch L (State L ctx) (VendorInstana L) = None"
  shows "restoreFromW3CTraceState L ctx = zeroSpanContext\<lparr>W3CContext := ctx\<rparr>"
  using assms by (simp add: restoreFromW3CTraceState_def)

lemma restoreFromW3CTraceState_no_semicolon:
  assumes "\<not> IsZero L ctx" "Fetch L (State L ctx) (VendorInstana L) = Some v"
    "CHR '';'' \<notin> set v"
  shows "restoreFromW3CTraceState L ctx = zeroSpanContext\<lparr>W3CContext := ctx\<rparr>"
  using assms by (simp add: restoreFromW3CTraceState_def parseW3CInstanaState_None)

lemma restoreFromW3CTraceState_malformed:
  assumes "\<not> IsZero L ctx" "Fetch L (State L ctx) (VendorInstana L) = Some (t @ CHR '';'' # s)"
    "CHR '';'' \<notin> set t" "ParseLongID L t = None \<or> ParseID L s = None"
  shows "restoreFromW3CTraceState L ctx = zeroSpanContext\<lparr>W3CContext := ctx\<rparr>"
  using assms
  by (auto simp: restoreFromW3CTraceState_def parseW3CInstanaState_Some Let_def
      split: option.splits)

lemma restoreFromW3CTraceState_parsed:
  assumes "\<not> IsZero L ctx" "Fetch L (State L ctx) (VendorInstana L) = Some (t @ CHR '';'' # s)"
    "CHR '';'' \<notin> set t" "ParseLongID L t = Some (hi, lo)" "ParseID L s = Some sid"
  shows "restoreFromW3CTraceState L ctx =
           zeroSpanContext\<lparr>W3CContext := ctx, TraceIDHi := hi, TraceID := lo, SpanID := sid\<rparr>"
  using assms by (simp add: restoreFromW3CTraceState_def parseW3CInstanaState_Some)

text \<open>
  C5. The restoration of a foreign context that is not zero, with the correlation
  disabled. When the state has no entry of the vendor, or the entry has no semicolon, or
  one of the two parts around its first semicolon does not parse, the result holds the
  foreign context and nothing else. When both parts parse, the result holds the foreign
  context and the identifiers parsed from the entry. The foreign parent fields are not
  read: the result is the same whatever \<open>Parent()\<close> returns.
\<close>

theorem restore_correlation_disabled:
  assumes nz: "\<not> IsZero L ctx" and dis: "disableW3CTraceCorrelation opts"
  shows
   "(Fetch L (State L ctx) (VendorInstana L) = None \<longrightarrow>
       restoreFromW3CTraceContext L opts ctx = zeroSpanContext\<lparr>W3CContext := ctx\<rparr>) \<and>
    (\<forall>v. Fetch L (State L ctx) (VendorInstana L) = Some v \<and> CHR '';'' \<notin> set v \<longrightarrow>
       restoreFromW3CTraceContext L opts ctx = zeroSpanContext\<lparr>W3CContext := ctx\<rparr>) \<and>
    (\<forall>t s. Fetch L (State L ctx) (VendorInstana L) = Some (t @ CHR '';'' # s) \<and>
           CHR '';'' \<notin> set t \<and> (ParseLongID L t = None \<or> ParseID L s = None) \<longrightarrow>
       restoreFromW3CTraceContext L opts ctx = zeroSpanContext\<lparr>W3CContext := ctx\<rparr>) \<and>
    (\<forall>t s hi lo sid. Fetch L (State L ctx) (VendorInstana L) = Some (t @ CHR '';'' # s) \<and>
           CHR '';'' \<notin> set t \<and> ParseLongID L t = Some (hi, lo) \<and> ParseID L s = Some sid \<longrightarrow>
       restoreFromW3CTraceContext L opts ctx =
         zeroSpanContext\<lparr>W3CContext := ctx, TraceIDHi := hi, TraceID := lo, SpanID := sid\<rparr>) \<and>
    restoreFromW3CTraceContext (L\<lparr>Parent := P\<rparr>) opts ctx = restoreFromW3CTraceContext L opts ctx"
proof -
  have nz': "\<not> IsZero (L\<lparr>Parent := P\<rparr>) ctx" using nz by simp
  have indep: "restoreFromW3CTraceContext (L\<lparr>Parent := P\<rparr>) opts ctx
                 = restoreFromW3CTraceContext L opts ctx"
    by (simp only: restore_disabled[OF nz dis] restore_disabled[OF nz' dis]
        restoreFromW3CTraceState_indep)
  show ?thesis
    unfolding restore_disabled[OF nz dis]
    using restoreFromW3CTraceState_absent[OF nz]
      restoreFromW3CTraceState_no_semicolon[OF nz]
      restoreFromW3CTraceState_malformed[OF nz]
      restoreFromW3CTraceState_parsed[OF nz]
      indep[unfolded restore_disabled[OF nz dis]]
    by blast
qed

lemma valid_parent_state:
  "spec_Fetch (spec_State (W3CContext validForeignParent)) ''in'' = Some (''12'' @ CHR '';'' # ''34'')"
  by (simp add: validForeignParent_def spec_Fetch_def spec_State_def HasPrefix_def)

lemma short_ids:
  "spec_ParseLongID ''12'' = Some (0, 0x12)" "spec_ParseID ''34'' = Some 0x34"
  by (simp_all add: spec_ParseLongID_def spec_ParseID_def hexValue_def)

theorem restore_correlation_disabled_witness:
  "\<not> IsZero spec_lib (W3CContext validForeignParent) \<and>
   disableW3CTraceCorrelation correlationDisabled \<and>
   Fetch spec_lib (State spec_lib (W3CContext validForeignParent)) (VendorInstana spec_lib)
     = Some (''12'' @ CHR '';'' # ''34'') \<and>
   restoreFromW3CTraceContext spec_lib correlationDisabled (W3CContext validForeignParent) =
     zeroSpanContext\<lparr>W3CContext := W3CContext validForeignParent,
       TraceIDHi := 0, TraceID := 0x12, SpanID := 0x34\<rparr>"
proof -
  have nz: "\<not> IsZero spec_lib (W3CContext validForeignParent)"
    by (simp add: spec_lib_simps validForeignParent_def spec_IsZero_def)
  have dis: "disableW3CTraceCorrelation correlationDisabled"
    by (simp add: correlationDisabled_def)
  have st: "Fetch spec_lib (State spec_lib (W3CContext validForeignParent)) (VendorInstana spec_lib)
     = Some (''12'' @ CHR '';'' # ''34'')"
    by (simp only: spec_lib_simps valid_parent_state)
  have ids: "CHR '';'' \<notin> set ''12''" "ParseLongID spec_lib ''12'' = Some (0, 0x12)"
    "ParseID spec_lib ''34'' = Some 0x34"
    by (simp_all add: spec_lib_simps short_ids)
  show ?thesis
    using restore_correlation_disabled[OF nz dis] nz dis st ids by blast
qed

section \<open>Links to the superseded trace\<close>

text \<open>
  C6. When the context \<open>NewSpanContext\<close> returns has \<open>ForeignTrace\<close> set: its foreign context
  has the raw state of the parent's, and its \<open>Links\<close> are decided by the entry of the
  vendor in that state. No entry, or an entry without a semicolon: no link. An entry
  \<open>t;s\<close>, split at its first semicolon: exactly the one link \<open>SpanReference{t, s}\<close>.
\<close>

theorem NewSpanContext_links:
  assumes ft: "ForeignTrace (fst (NewSpanContext L opts parent w))"
  shows
   "RawState (W3CContext (fst (NewSpanContext L opts parent w))) = RawState (W3CContext parent) \<and>
    (Fetch L (State L (W3CContext (fst (NewSpanContext L opts parent w)))) (VendorInstana L) = None \<longrightarrow>
       Links (fst (NewSpanContext L opts parent w)) = []) \<and>
    (\<forall>v. Fetch L (State L (W3CContext (fst (NewSpanContext L opts parent w)))) (VendorInstana L) = Some v \<and>
         CHR '';'' \<notin> set v \<longrightarrow>
       Links (fst (NewSpanContext L opts parent w)) = []) \<and>
    (\<forall>t s. Fetch L (State L (W3CContext (fst (NewSpanContext L opts parent w)))) (VendorInstana L)
            = Some (t @ CHR '';'' # s) \<and> CHR '';'' \<notin> set t \<longrightarrow>
       Links (fst (NewSpanContext L opts parent w)) = [\<lparr>RefTraceID = t, RefSpanID = s\<rparr>])"
proof -
  let ?r = "restoreFromW3CTraceContext L opts (W3CContext parent)"
  have pz: "noNativeIDs parent"
    using ft by (auto simp: NewSpanContext_paths clonePath_fields rootPath_fields split: if_splits)
  have rn: "\<not> noNativeIDs ?r"
    using ft pz by (auto simp: NewSpanContext_paths rootPath_fields split: if_splits)
  have en: "\<not> disableW3CTraceCorrelation opts"
    using ft pz rn by (simp add: NewSpanContext_paths clonePath_fields)
  have p: "NewSpanContext L opts parent w = clonePath L True ?r w"
    using pz rn en by (simp add: NewSpanContext_paths)
  from restore_enabled_cases[OF en, of L "W3CContext parent"] rn
  have ctx: "\<not> IsZero L (W3CContext parent)" "W3CContext ?r = W3CContext parent"
    by (auto simp: noNativeIDs_zero)
  have nzr: "\<not> IsZero L (W3CContext ?r)" using ctx by simp
  have links: "Links (fst (NewSpanContext L opts parent w)) =
           (case Fetch L (State L (W3CContext (fst (NewSpanContext L opts parent w)))) (VendorInstana L) of
              None \<Rightarrow> []
            | Some ancestor \<Rightarrow>
                (case parseW3CInstanaState ancestor of None \<Rightarrow> [] | Some ref \<Rightarrow> [ref]))"
    unfolding p by (rule clonePath_foreign(2)[OF nzr])
  have state: "RawState (W3CContext (fst (NewSpanContext L opts parent w))) = RawState (W3CContext parent)"
    unfolding p by (simp add: clonePath_foreign(1)[OF nzr] ctx)
  show ?thesis
  proof (intro conjI allI impI)
    show "RawState (W3CContext (fst (NewSpanContext L opts parent w))) = RawState (W3CContext parent)"
      by (rule state)
  next
    assume "Fetch L (State L (W3CContext (fst (NewSpanContext L opts parent w)))) (VendorInstana L) = None"
    then show "Links (fst (NewSpanContext L opts parent w)) = []"
      using links by simp
  next
    fix v
    assume "Fetch L (State L (W3CContext (fst (NewSpanContext L opts parent w)))) (VendorInstana L) = Some v \<and>
         CHR '';'' \<notin> set v"
    then show "Links (fst (NewSpanContext L opts parent w)) = []"
      using links by (simp add: parseW3CInstanaState_None)
  next
    fix t s
    assume "Fetch L (State L (W3CContext (fst (NewSpanContext L opts parent w)))) (VendorInstana L)
            = Some (t @ CHR '';'' # s) \<and> CHR '';'' \<notin> set t"
    then show "Links (fst (NewSpanContext L opts parent w)) = [\<lparr>RefTraceID = t, RefSpanID = s\<rparr>]"
      using links by (simp add: parseW3CInstanaState_Some)
  qed
qed


lemma valid_parent_ForeignTrace:
  "ForeignTrace (fst (NewSpanContext spec_lib noOptions validForeignParent exampleWorld))"
proof -
  have en: "\<not> disableW3CTraceCorrelation noOptions" by (simp add: noOptions_def)
  have nz: "\<not> IsZero spec_lib (W3CContext validForeignParent)"
    by (simp add: spec_lib_simps validForeignParent_def spec_IsZero_def)
  have t: "ParseLongID spec_lib (W3C_TraceID (Parent spec_lib (W3CContext validForeignParent))) = Some (0, 0xabcd)"
    by (simp add: spec_lib_simps valid_parent_parsed valid_parent_ids)
  have s: "ParseID spec_lib (W3C_ParentID (Parent spec_lib (W3CContext validForeignParent))) = Some 0x12"
    by (simp add: spec_lib_simps valid_parent_parsed valid_parent_ids)
  have pz: "noNativeIDs validForeignParent"
    by (simp add: noNativeIDs_def validForeignParent_def zeroSpanContext_def)
  have rn: "\<not> noNativeIDs (restoreFromW3CTraceContext spec_lib noOptions (W3CContext validForeignParent))"
    by (simp add: restore_enabled[OF nz en t s] noNativeIDs_def)
  show ?thesis
    using pz rn en by (simp add: NewSpanContext_paths clonePath_fields)
qed

lemma spec_State_RawState: "RawState a = RawState b \<Longrightarrow> spec_State a = spec_State b"
  by (simp add: spec_State_def)

theorem NewSpanContext_links_witness:
  "ForeignTrace (fst (NewSpanContext spec_lib noOptions validForeignParent exampleWorld)) \<and>
   Fetch spec_lib (State spec_lib (W3CContext (fst (NewSpanContext spec_lib noOptions validForeignParent exampleWorld))))
     (VendorInstana spec_lib) = Some (''12'' @ CHR '';'' # ''34'') \<and>
   Links (fst (NewSpanContext spec_lib noOptions validForeignParent exampleWorld))
     = [\<lparr>RefTraceID = ''12'', RefSpanID = ''34''\<rparr>]"
proof -
  note th = NewSpanContext_links[OF valid_parent_ForeignTrace]
  have st: "spec_State (W3CContext (fst (NewSpanContext spec_lib noOptions validForeignParent exampleWorld)))
              = spec_State (W3CContext validForeignParent)"
    using th by (intro spec_State_RawState) blast
  have f: "Fetch spec_lib (State spec_lib (W3CContext (fst (NewSpanContext spec_lib noOptions validForeignParent exampleWorld))))
     (VendorInstana spec_lib) = Some (''12'' @ CHR '';'' # ''34'')"
    by (simp only: spec_lib_simps st valid_parent_state)
  have semi: "CHR '';'' \<notin> set ''12''" by simp
  show ?thesis
    using th f semi valid_parent_ForeignTrace by blast
qed

section \<open>The child of a root whose identifier is zero\<close>




section \<open>Extraction: which error\<close>

lemma Field_distinct:
  "FieldT \<noteq> FieldS" "FieldT \<noteq> FieldL" "FieldS \<noteq> FieldL"
  "FieldS \<noteq> FieldT" "FieldL \<noteq> FieldT" "FieldL \<noteq> FieldS"
  "\<not> HasPrefix FieldT FieldB" "\<not> HasPrefix FieldS FieldB" "\<not> HasPrefix FieldL FieldB"
  by (simp_all add: FieldT_def FieldS_def FieldL_def FieldB_def HasPrefix_def)

lemma ToLower_ascii: "\<forall>c\<in>set s. \<not> digit7 c \<Longrightarrow> ToLower L s = map ToLowerChar s"
  by (induction s) auto

lemma ToLower_Field:
  "ToLower L FieldT = FieldT" "ToLower L FieldS = FieldS" "ToLower L FieldL = FieldL"
  "ToLower L (FieldB @ k) = FieldB @ ToLower L k"
  by (simp_all add: ToLowerChar_def FieldT_def FieldS_def FieldL_def FieldB_def)

lemma ToLower_examples:
  "ToLower L ''x-instana-t'' = FieldT" "ToLower L ''X-Instana-T'' = FieldT"
  "ToLower L ''x-instana-s'' = FieldS" "ToLower L ''x-instana-l'' = FieldL"
  "ToLower L ''x-instana-b-user'' = ''x-instana-b-user''"
  by (simp_all add: ToLowerChar_def FieldT_def FieldS_def FieldL_def)

text \<open>The extraction loop on a list of entries none of which makes the slice panic.\<close>

lemma extract_handler_error:
  "sliceable L k \<Longrightarrow> fst (extract_handler L b k v st) = Some e \<Longrightarrow> e = ErrSpanContextCorrupted"
  by (cases st) (auto simp: extract_handler_def sliceable_def split: if_splits option.splits)

lemma extract_handler_bad:
  "isIDField L k \<Longrightarrow> ParseID L v = None \<Longrightarrow>
   fst (extract_handler L b k v st) = Some ErrSpanContextCorrupted"
  by (cases st) (auto simp: extract_handler_def isIDField_def)

lemma extract_handler_count:
  "fst (extract_handler L b k v (n, sc, w)) = None \<Longrightarrow>
   fst (snd (extract_handler L b k v (n, sc, w))) = n + (if isIDField L k then 1 else 0)"
  by (auto simp: extract_handler_def isIDField_def Field_distinct split: if_splits option.splits)

lemma extract_handler_good:
  "sliceable L k \<Longrightarrow> (isIDField L k \<longrightarrow> ParseID L v \<noteq> None) \<Longrightarrow>
   fst (extract_handler L b k v st) = None"
  by (cases st)
    (auto simp: extract_handler_def isIDField_def sliceable_def split: if_splits option.splits)

lemma ForeachKey_extract_bad:
  "\<forall>(k, v) \<in> set kvs. sliceable L k \<Longrightarrow>
   (k, v) \<in> set kvs \<Longrightarrow> isIDField L k \<Longrightarrow> ParseID L v = None \<Longrightarrow>
   fst (ForeachKey kvs (extract_handler L b) st) = Some ErrSpanContextCorrupted"
proof (induction kvs arbitrary: st)
  case Nil
  then show ?case by simp
next
  case (Cons kv kvs)
  obtain k' v' where kv: "kv = (k', v')" by (cases kv)
  have sl: "sliceable L k'" using Cons.prems(1) kv by simp
  obtain r st' where h: "extract_handler L b k' v' st = (r, st')"
    by (cases "extract_handler L b k' v' st")
  show ?case
  proof (cases r)
    case (Some e)
    then have "e = ErrSpanContextCorrupted"
      using h extract_handler_error[OF sl, of b v' st e] by simp
    with Some h kv show ?thesis by simp
  next
    case None
    have "(k, v) \<noteq> (k', v')"
    proof
      assume "(k, v) = (k', v')"
      then have "fst (extract_handler L b k' v' st) = Some ErrSpanContextCorrupted"
        using Cons.prems extract_handler_bad by blast
      with h None show False by simp
    qed
    then have "(k, v) \<in> set kvs" using Cons.prems kv by auto
    moreover have "\<forall>(k, v) \<in> set kvs. sliceable L k" using Cons.prems(1) by simp
    ultimately have "fst (ForeachKey kvs (extract_handler L b) st') = Some ErrSpanContextCorrupted"
      using Cons.IH Cons.prems by blast
    with None h kv show ?thesis by simp
  qed
qed

lemma ForeachKey_extract_count:
  "\<forall>(k, v) \<in> set kvs. sliceable L k \<and> (isIDField L k \<longrightarrow> ParseID L v \<noteq> None) \<Longrightarrow>
   fst (ForeachKey kvs (extract_handler L b) (n, sc, w)) = None \<and>
   fst (snd (ForeachKey kvs (extract_handler L b) (n, sc, w)))
     = n + int (length (filter (\<lambda>(k, v). isIDField L k) kvs))"
proof (induction kvs arbitrary: n sc w)
  case Nil
  then show ?case by simp
next
  case (Cons kv kvs)
  obtain k v where kv: "kv = (k, v)" by (cases kv)
  have good: "isIDField L k \<longrightarrow> ParseID L v \<noteq> None" and sl: "sliceable L k"
    using Cons.prems kv by auto
  obtain n' sc' w' where h: "extract_handler L b k v (n, sc, w) = (None, n', sc', w')"
    using extract_handler_good[OF sl good, of b "(n, sc, w)"]
    by (cases "extract_handler L b k v (n, sc, w)") auto
  have n': "n' = n + (if isIDField L k then 1 else 0)"
    using extract_handler_count[of L b k v n sc w] h by simp
  have rest: "\<forall>(k, v) \<in> set kvs. sliceable L k \<and> (isIDField L k \<longrightarrow> ParseID L v \<noteq> None)"
    using Cons.prems by auto
  show ?case using Cons.IH[OF rest, of n' sc' w'] h kv n' by simp
qed

lemma extract_error_of_loop:
  assumes "asTextMapReader carrier = Some kvs"
  shows "snd (fst (extractTraceContext L carrier w)) =
     (case ForeachKey kvs (extract_handler L (length (heap w)))
             (0, zeroSpanContext\<lparr>Baggage := Some (length (heap w))\<rparr>, snd (make_map w)) of
        (Some e, st) \<Rightarrow> Some e
      | (None, n, st) \<Rightarrow>
          if n = 0 then Some ErrSpanContextNotFound
          else if n < 2 then Some ErrSpanContextCorrupted else None)"
  using assms
  by (simp add: extractTraceContext_def make_map_def Let_def
      split: prod.splits option.splits carrier.splits)

lemma count_two_keys:
  "distinct (map f xs) \<Longrightarrow> a \<noteq> b \<Longrightarrow>
   length (filter (\<lambda>x. f x = a \<or> f x = b) xs)
     = (if a \<in> f ` set xs then 1 else 0) + (if b \<in> f ` set xs then 1 else 0)"
  by (induction xs) auto

text \<open>
  Where the claim C1 holds. For a carrier that is a text-map reader and none of whose
  keys makes the slice panic, \<open>extractTraceContext\<close> counts the entries whose key is, in
  lower case, the trace-id or the span-id field: an entry of either field whose value
  does not parse gives \<open>CorruptedContext\<close>, no entry \<open>ContextNotFound\<close>, one entry
  \<open>CorruptedContext\<close>, two or more with all values parsing give success. When no two
  entries have keys that are equal in lower case, the count is the number of the two
  fields found, as the claim has it.
\<close>

lemma extractTraceContext_entry_count:
  assumes rd: "asTextMapReader carrier = Some kvs"
    and sl: "\<forall>(k, v) \<in> set kvs. sliceable L k"
  shows
   "((\<exists>(k, v) \<in> set kvs. isIDField L k \<and> ParseID L v = None) \<longrightarrow>
       snd (fst (extractTraceContext L carrier w)) = Some ErrSpanContextCorrupted) \<and>
    (length (filter (\<lambda>(k, v). isIDField L k) kvs) = 0 \<longrightarrow>
       snd (fst (extractTraceContext L carrier w)) = Some ErrSpanContextNotFound) \<and>
    (length (filter (\<lambda>(k, v). isIDField L k) kvs) = 1 \<longrightarrow>
       snd (fst (extractTraceContext L carrier w)) = Some ErrSpanContextCorrupted) \<and>
    (2 \<le> length (filter (\<lambda>(k, v). isIDField L k) kvs) \<and>
     (\<forall>(k, v) \<in> set kvs. isIDField L k \<longrightarrow> ParseID L v \<noteq> None) \<longrightarrow>
       snd (fst (extractTraceContext L carrier w)) = None) \<and>
    (distinct (map (\<lambda>(k, v). ToLower L k) kvs) \<longrightarrow>
       length (filter (\<lambda>(k, v). isIDField L k) kvs)
         = (if FieldT \<in> (\<lambda>(k, v). ToLower L k) ` set kvs then 1 else 0)
           + (if FieldS \<in> (\<lambda>(k, v). ToLower L k) ` set kvs then 1 else 0))"
proof -
  let ?b = "length (heap w)"
  let ?st = "(0::int, zeroSpanContext\<lparr>Baggage := Some ?b\<rparr>, snd (make_map w))"
  let ?loop = "ForeachKey kvs (extract_handler L ?b) ?st"
  let ?n = "length (filter (\<lambda>(k, v). isIDField L k) kvs)"
  let ?err = "snd (fst (extractTraceContext L carrier w))"
  obtain e n st' where loop: "?loop = (e, n, st')" by (cases ?loop) auto
  have res: "?err = (case e of Some x \<Rightarrow> Some x
                     | None \<Rightarrow> if n = 0 then Some ErrSpanContextNotFound
                               else if n < 2 then Some ErrSpanContextCorrupted else None)"
    by (simp add: extract_error_of_loop[OF rd, of L w] loop split: option.splits)
  have bad: "(\<exists>(k, v) \<in> set kvs. isIDField L k \<and> ParseID L v = None) \<longrightarrow> ?err = Some ErrSpanContextCorrupted"
  proof
    assume "\<exists>(k, v) \<in> set kvs. isIDField L k \<and> ParseID L v = None"
    then obtain k v where "(k, v) \<in> set kvs" "isIDField L k" "ParseID L v = None" by auto
    then have "fst ?loop = Some ErrSpanContextCorrupted" by (rule ForeachKey_extract_bad[OF sl])
    then show "?err = Some ErrSpanContextCorrupted"
      by (simp add: res loop)
  qed
  have good: "(\<forall>(k, v) \<in> set kvs. isIDField L k \<longrightarrow> ParseID L v \<noteq> None) \<Longrightarrow>
     ?err = (if ?n = 0 then Some ErrSpanContextNotFound
             else if ?n < 2 then Some ErrSpanContextCorrupted else None)"
  proof -
    assume "\<forall>(k, v) \<in> set kvs. isIDField L k \<longrightarrow> ParseID L v \<noteq> None"
    with sl have ok: "\<forall>(k, v) \<in> set kvs. sliceable L k \<and> (isIDField L k \<longrightarrow> ParseID L v \<noteq> None)"
      by auto
    from ForeachKey_extract_count[OF ok, of ?b 0 "zeroSpanContext\<lparr>Baggage := Some ?b\<rparr>" "snd (make_map w)"]
    have "fst ?loop = None" "fst (snd ?loop) = int ?n" by simp_all
    then show ?thesis by (simp add: res loop)
  qed
  have zero: "?n = 0 \<longrightarrow> ?err = Some ErrSpanContextNotFound"
  proof
    assume n: "?n = 0"
    then have "\<forall>(k, v) \<in> set kvs. \<not> isIDField L k"
      by (auto simp: filter_empty_conv)
    then have "\<forall>(k, v) \<in> set kvs. isIDField L k \<longrightarrow> ParseID L v \<noteq> None" by auto
    from good[OF this] n show "?err = Some ErrSpanContextNotFound" by simp
  qed
  have one: "?n = 1 \<longrightarrow> ?err = Some ErrSpanContextCorrupted"
  proof
    assume n: "?n = 1"
    show "?err = Some ErrSpanContextCorrupted"
    proof (cases "\<forall>(k, v) \<in> set kvs. isIDField L k \<longrightarrow> ParseID L v \<noteq> None")
      case True
      from good[OF this] n show ?thesis by simp
    next
      case False
      then have "\<exists>(k, v) \<in> set kvs. isIDField L k \<and> ParseID L v = None" by auto
      with bad show ?thesis by blast
    qed
  qed
  have many: "2 \<le> ?n \<and> (\<forall>(k, v) \<in> set kvs. isIDField L k \<longrightarrow> ParseID L v \<noteq> None) \<longrightarrow> ?err = None"
  proof
    assume a: "2 \<le> ?n \<and> (\<forall>(k, v) \<in> set kvs. isIDField L k \<longrightarrow> ParseID L v \<noteq> None)"
    then have "?err = (if ?n = 0 then Some ErrSpanContextNotFound
             else if ?n < 2 then Some ErrSpanContextCorrupted else None)" using good by blast
    with a show "?err = None" by (auto split: if_splits)
  qed
  have count: "distinct (map (\<lambda>(k, v). ToLower L k) kvs) \<longrightarrow>
       ?n = (if FieldT \<in> (\<lambda>(k, v). ToLower L k) ` set kvs then 1 else 0)
           + (if FieldS \<in> (\<lambda>(k, v). ToLower L k) ` set kvs then 1 else 0)"
  proof
    assume d: "distinct (map (\<lambda>(k, v). ToLower L k) kvs)"
    have eq: "(\<lambda>(k, v). isIDField L k) = (\<lambda>x. (\<lambda>(k, v). ToLower L k) x = FieldT \<or> (\<lambda>(k, v). ToLower L k) x = FieldS)"
      by (auto simp: isIDField_def fun_eq_iff)
    show "?n = (if FieldT \<in> (\<lambda>(k, v). ToLower L k) ` set kvs then 1 else 0)
           + (if FieldS \<in> (\<lambda>(k, v). ToLower L k) ` set kvs then 1 else 0)"
      unfolding eq by (rule count_two_keys[OF d Field_distinct(1)])
  qed
  show ?thesis using bad zero one many count by blast
qed

lemma parse_examples:
  "spec_ParseID ''1a'' = Some 26" "spec_ParseID ''2b'' = Some 43" "spec_ParseID ''1b'' = Some 27"
  "spec_ParseID ''63'' = Some 99"
  by (simp_all add: spec_ParseID_def hexValue_def)

text \<open>
  C1. The claim: exactly one of the two fields found gives \<open>CorruptedContext\<close>. The code
  counts entries, not fields. A text map that holds the trace-id field under two spellings
  and no span-id field, and a header map whose trace-id header has two values: one field
  is found, two entries are counted, and the extraction succeeds with \<open>SpanID\<close> zero.
\<close>

theorem extractTraceContext_duplicate_field:
  "asTextMapReader duplicateCarrier = Some [(''x-instana-t'', ''1a''), (''X-Instana-T'', ''1a'')] \<and>
   ToLower spec_lib ''x-instana-t'' = FieldT \<and> ToLower spec_lib ''X-Instana-T'' = FieldT \<and>
   FieldT \<noteq> FieldS \<and>
   fst (extractTraceContext spec_lib duplicateCarrier exampleWorld)
     = (zeroSpanContext\<lparr>Baggage := Some 1, TraceID := 26\<rparr>, None) \<and>
   asTextMapReader repeatedHeaderCarrier = Some [(''X-Instana-T'', ''1a''), (''X-Instana-T'', ''1b'')] \<and>
   fst (extractTraceContext spec_lib repeatedHeaderCarrier exampleWorld)
     = (zeroSpanContext\<lparr>Baggage := Some 1, TraceID := 27\<rparr>, None)"
  by (simp add: duplicateCarrier_def repeatedHeaderCarrier_def ToLower_examples Field_distinct
      extractTraceContext_def make_map_def exampleWorld_def extract_handler_def spec_lib_simps
      parse_examples spec_Extract_def Header_Get_def CanonicalMIMEHeaderKey_def
      validHeaderFieldByte_def ToLowerChar_def ToUpperChar_def
      FieldT_def FieldS_def FieldL_def FieldB_def HasPrefix_def)

text \<open>A key spelled with U+0130 is the trace-id field as well: Go's lower case of that
  letter is \<open>i\<close>.\<close>

lemma extract_dotted_key:
  "fst (extractTraceContext spec_lib dottedCarrier exampleWorld)
     = (zeroSpanContext\<lparr>Baggage := Some 1, TraceID := 26, SpanID := 43\<rparr>, None)"
  by (simp add: dottedCarrier_def dottedI_def ToLower_examples Field_distinct
      extractTraceContext_def make_map_def exampleWorld_def extract_handler_def spec_lib_simps
      parse_examples spec_runeLower_def spec_runeWidth_def ToLowerChar_def
      FieldT_def FieldS_def FieldL_def FieldB_def HasPrefix_def)

section \<open>The codec written from the specification\<close>

text \<open>\<open>ParseID\<close> reads back what \<open>FormatID\<close> writes, for every identifier.\<close>

lemma hexValue_digits: "list_all (\<lambda>d. hexValue (''0123456789abcdef'' ! d) = Some d) [0..<16]"
  by code_simp

lemma hexValue_digit: "d < 16 \<Longrightarrow> hexValue (''0123456789abcdef'' ! d) = Some d"
  using hexValue_digits by (simp add: list_all_iff)

lemma parseHex_append:
  "parseHex acc (xs @ ys) = (case parseHex acc xs of None \<Rightarrow> None | Some a \<Rightarrow> parseHex a ys)"
  by (induction xs arbitrary: acc) (auto split: option.splits)

lemma parseHex_hex: "parseHex acc (hex n) = Some (16 ^ length (hex n) * acc + n)"
proof (induction n arbitrary: acc rule: hex.induct)
  case (1 n)
  show ?case
  proof (cases "n < 16")
    case True
    then show ?thesis by (simp add: hex.simps[of n] hexValue_digit)
  next
    case False
    have d: "n mod 16 < 16" by simp
    have "parseHex acc (hex n) =
            parseHex acc (hex (n div 16) @ [''0123456789abcdef'' ! (n mod 16)])"
      using False by (simp add: hex.simps[of n])
    also have "\<dots> = Some (16 * (16 ^ length (hex (n div 16)) * acc + n div 16) + n mod 16)"
      using "1.IH"[OF False, of acc] by (simp add: parseHex_append hexValue_digit[OF d])
    also have "\<dots> = Some (16 ^ length (hex n) * acc + n)"
      using False by (simp add: hex.simps[of n] algebra_simps)
    finally show ?thesis .
  qed
qed

lemma hex_nonempty: "hex n \<noteq> []"
  by (simp add: hex.simps[of n])

lemma spec_ParseID_FormatID: "spec_ParseID (spec_FormatID n) = Some n"
proof -
  have "unat n < 2 ^ 64" using unsigned_less[of n] by simp
  then show ?thesis
    by (simp add: spec_ParseID_def spec_FormatID_def hex_nonempty parseHex_hex)
qed

lemma format_examples: "spec_FormatID 26 = ''1a''" "spec_FormatID 99 = ''63''"
  by code_simp+

section \<open>Injection into a header map\<close>

lemma canonical_names:
  "CanonicalMIMEHeaderKey ''x-instana-t'' = ''X-Instana-T''"
  "CanonicalMIMEHeaderKey ''x-instana-s'' = ''X-Instana-S''"
  "CanonicalMIMEHeaderKey ''x-instana-l'' = ''X-Instana-L''"
  "CanonicalMIMEHeaderKey ''traceparent'' = ''Traceparent''"
  "CanonicalMIMEHeaderKey ''tracestate'' = ''Tracestate''"
  by (simp_all add: CanonicalMIMEHeaderKey_def validHeaderFieldByte_def ToLowerChar_def
      ToUpperChar_def)

lemma canonical_baggage_key:
  "CanonicalMIMEHeaderKey (''x-instana-b-'' @ k) \<notin>
     {''X-Instana-T'', ''X-Instana-S'', ''X-Instana-L'', ''Traceparent'', ''Tracestate''}"
  by (simp add: CanonicalMIMEHeaderKey_def ToLowerChar_def ToUpperChar_def)

lemma map_of_Header_Set_other:
  "CanonicalMIMEHeaderKey key \<noteq> K \<Longrightarrow> map_of (Header_Set key val h) K = map_of h K"
  by (simp add: Header_Set_def update_conv')

lemma fold_Set_http:
  "\<forall>(k, v) \<in> set bag. CanonicalMIMEHeaderKey (P @ k) \<noteq> K \<Longrightarrow>
   map_of (headersOf (fold (\<lambda>(k, v). carrier_Set (P @ k) v) bag (HTTPHeadersCarrier h))) K
     = map_of h K"
proof (induction bag arbitrary: h)
  case Nil
  then show ?case by (simp add: headersOf_def)
next
  case (Cons kv bag)
  obtain k v where kv: "kv = (k, v)" by (cases kv)
  have "map_of (headersOf (fold (\<lambda>(k, v). carrier_Set (P @ k) v) bag
           (HTTPHeadersCarrier (Header_Set (P @ k) v h)))) K = map_of (Header_Set (P @ k) v h) K"
    using Cons.prems by (intro Cons.IH) simp
  also have "\<dots> = map_of h K"
    using Cons.prems kv by (intro map_of_Header_Set_other) simp
  finally show ?case by (simp add: kv)
qed

lemma join_nonempty: "e \<noteq> [] \<Longrightarrow> join sep (e # es) \<noteq> []"
  by (cases es) simp_all

lemma spec_ParentString_nonempty: "spec_ParentString p \<noteq> []"
  by (simp add: spec_ParentString_def)

text \<open>The foreign context injection writes, for a context with trace id 26 and span id 99.\<close>

lemma addW3CTraceContext_empty:
  assumes "TraceID sc = 26" "SpanID sc = 99"
  shows "\<exists>rp. rp \<noteq> [] \<and>
     addW3CTraceContext spec_lib [] sc =
       [(''Traceparent'', [rp]),
        (''Tracestate'',
           [spec_StateString (''in=1a;63'' #
              filter (\<lambda>e. \<not> HasPrefix e ''in='')
                (case ForeignParent sc of None \<Rightarrow> [] | Some fp \<Rightarrow> spec_State fp))])]"
proof (cases "ForeignParent sc")
  case None
  show ?thesis
    by (rule exI[of _ "spec_ParentString ((spec_Parent (spec_New
           \<lparr>W3C_Version = 0, W3C_TraceID = ''1a'', W3C_ParentID = ''63'',
            W3C_Flags = \<lparr>W3C_Sampled = \<not> Suppressed sc\<rparr>\<rparr>))\<lparr>W3C_ParentID := ''63''\<rparr>)"])
      (simp add: addW3CTraceContext_def None assms spec_lib_simps format_examples Let_def
        spec_Inject_def Header_Set_def canonical_names spec_Add_def spec_State_def spec_New_def
        spec_ParentString_nonempty)
next
  case (Some fp)
  show ?thesis
    by (rule exI[of _ "spec_ParentString ((spec_Parent fp)\<lparr>W3C_ParentID := ''63''\<rparr>)"])
      (simp add: addW3CTraceContext_def Some assms spec_lib_simps format_examples Let_def
        spec_Inject_def Header_Set_def canonical_names spec_Add_def spec_State_def
        spec_ParentString_nonempty)
qed


lemma inject_http_empty:
  "injectTraceContext L sc (HTTPHeadersCarrier []) w =
     (None, fold (\<lambda>(k, v). carrier_Set (FieldB @ k) v) (baggage_entries sc w)
        (HTTPHeadersCarrier
           (Header_Set FieldL (formatLevel sc)
              (Header_Set FieldS (FormatID L (SpanID sc))
                 (Header_Set FieldT (FormatID L (TraceID sc)) (addW3CTraceContext L [] sc))))))"
  by (simp add: injectTraceContext_def Let_def)

text \<open>
  C8. With the identifier codec and the foreign-context adapter as the specification
  describes them: injecting a context with trace id 26, span id 99 and not suppressed
  into an empty header map succeeds; the headers \<open>x-instana-t\<close>, \<open>x-instana-s\<close> and
  \<open>x-instana-l\<close> are \<open>1a\<close>, \<open>63\<close> and \<open>1\<close>; the two foreign headers are not empty; and the
  state header is the list that starts with the entry \<open>in=1a;63\<close> and continues with every
  entry of another vendor that the context's foreign context had, in their order. This
  holds whatever baggage the context carries.
\<close>

theorem inject_http_example:
  assumes ids: "TraceID sc = 26" "SpanID sc = 99" and lvl: "\<not> Suppressed sc"
  shows
   "fst (injectTraceContext spec_lib sc (HTTPHeadersCarrier []) w) = None \<and>
    Header_Get (headersOf (snd (injectTraceContext spec_lib sc (HTTPHeadersCarrier []) w))) ''x-instana-t'' = ''1a'' \<and>
    Header_Get (headersOf (snd (injectTraceContext spec_lib sc (HTTPHeadersCarrier []) w))) ''x-instana-s'' = ''63'' \<and>
    Header_Get (headersOf (snd (injectTraceContext spec_lib sc (HTTPHeadersCarrier []) w))) ''x-instana-l'' = ''1'' \<and>
    Header_Get (headersOf (snd (injectTraceContext spec_lib sc (HTTPHeadersCarrier []) w))) ''traceparent'' \<noteq> [] \<and>
    Header_Get (headersOf (snd (injectTraceContext spec_lib sc (HTTPHeadersCarrier []) w))) ''tracestate'' \<noteq> [] \<and>
    Header_Get (headersOf (snd (injectTraceContext spec_lib sc (HTTPHeadersCarrier []) w))) ''tracestate''
      = spec_StateString (''in=1a;63'' #
          filter (\<lambda>e. \<not> HasPrefix e ''in='')
            (case ForeignParent sc of None \<Rightarrow> [] | Some fp \<Rightarrow> spec_State fp))"
proof -
  let ?st = "spec_StateString (''in=1a;63'' #
          filter (\<lambda>e. \<not> HasPrefix e ''in='')
            (case ForeignParent sc of None \<Rightarrow> [] | Some fp \<Rightarrow> spec_State fp))"
  let ?h = "headersOf (snd (injectTraceContext spec_lib sc (HTTPHeadersCarrier []) w))"
  from addW3CTraceContext_empty[OF ids] obtain rp where rp: "rp \<noteq> []"
    and w3c: "addW3CTraceContext spec_lib [] sc = [(''Traceparent'', [rp]), (''Tracestate'', [?st])]"
    by blast
  let ?base = "[(''Traceparent'', [rp]), (''Tracestate'', [?st]), (''X-Instana-T'', [''1a'']),
                (''X-Instana-S'', [''63'']), (''X-Instana-L'', [''1''])]"
  have base: "Header_Set FieldL (formatLevel sc)
              (Header_Set FieldS (FormatID spec_lib (SpanID sc))
                 (Header_Set FieldT (FormatID spec_lib (TraceID sc)) (addW3CTraceContext spec_lib [] sc)))
               = ?base"
    using lvl
    by (simp add: w3c ids spec_lib_simps format_examples formatLevel_def Header_Set_def
        FieldT_def FieldS_def FieldL_def canonical_names)
  have other: "\<And>K. K \<in> {''X-Instana-T'', ''X-Instana-S'', ''X-Instana-L'', ''Traceparent'', ''Tracestate''}
      \<Longrightarrow> map_of ?h K = map_of ?base K"
  proof -
    fix K :: string
    assume K: "K \<in> {''X-Instana-T'', ''X-Instana-S'', ''X-Instana-L'', ''Traceparent'', ''Tracestate''}"
    have "\<forall>(k, v) \<in> set (baggage_entries sc w). CanonicalMIMEHeaderKey (FieldB @ k) \<noteq> K"
      using canonical_baggage_key K by (auto simp: FieldB_def)
    from fold_Set_http[OF this, of ?base] show "map_of ?h K = map_of ?base K"
      by (simp add: inject_http_empty base)
  qed
  have st: "?st \<noteq> []" by (simp add: spec_StateString_def join_nonempty)
  have "fst (injectTraceContext spec_lib sc (HTTPHeadersCarrier []) w) = None"
    by (simp add: inject_http_empty)
  moreover have "Header_Get ?h ''x-instana-t'' = ''1a''"
    by (simp add: Header_Get_def canonical_names other)
  moreover have "Header_Get ?h ''x-instana-s'' = ''63''"
    by (simp add: Header_Get_def canonical_names other)
  moreover have "Header_Get ?h ''x-instana-l'' = ''1''"
    by (simp add: Header_Get_def canonical_names other)
  moreover have "Header_Get ?h ''traceparent'' \<noteq> []"
    using rp by (simp add: Header_Get_def canonical_names other)
  moreover have ts: "Header_Get ?h ''tracestate'' = ?st"
    by (simp add: Header_Get_def canonical_names other)
  moreover have "Header_Get ?h ''tracestate'' \<noteq> []"
    unfolding ts by (rule st)
  ultimately show ?thesis by blast
qed

theorem inject_http_example_witness:
  "TraceID plainContext = 26 \<and> SpanID plainContext = 99 \<and> \<not> Suppressed plainContext \<and>
   Header_Get (headersOf (snd (injectTraceContext spec_lib plainContext (HTTPHeadersCarrier []) exampleWorld)))
     ''x-instana-t'' = ''1a'' \<and>
   Header_Get (headersOf (snd (injectTraceContext spec_lib plainContext (HTTPHeadersCarrier []) exampleWorld)))
     ''x-instana-s'' = ''63'' \<and>
   Header_Get (headersOf (snd (injectTraceContext spec_lib plainContext (HTTPHeadersCarrier []) exampleWorld)))
     ''x-instana-l'' = ''1'' \<and>
   Header_Get (headersOf (snd (injectTraceContext spec_lib plainContext (HTTPHeadersCarrier []) exampleWorld)))
     ''tracestate'' = ''in=1a;63''"
proof -
  have h: "TraceID plainContext = 26" "SpanID plainContext = 99" "\<not> Suppressed plainContext"
    "ForeignParent plainContext = None"
    by (simp_all add: plainContext_def zeroSpanContext_def)
  show ?thesis
    using inject_http_example[OF h(1) h(2) h(3), of exampleWorld] h
    by (simp add: spec_StateString_def)
qed

end
